theory Spec2Isabelle
  imports Main
begin

section \<open>JavaScript values\<close>

text \<open>
  A JavaScript string is a sequence of UTF-16 code units. A code unit is modelled by its
  number (below 65536 for every real string); the code never does arithmetic on code
  units, it only compares them. \<open>js\<close> turns a source literal into such a string.
\<close>

type_synonym jschar = nat
type_synonym jsstr = "jschar list"

definition js :: "string \<Rightarrow> jsstr" where
  "js s = map of_char s"

text \<open>
  The values the code handles. Numbers are the integers (timestamps, lengths); an object
  is the map of its own properties, an array the list of its elements. Values read from
  \<open>chrome.storage.local\<close> are fresh copies, so no stored object is identical to an
  object held by a caller.
\<close>

datatype jsval =
    JUndefined
  | JNull
  | JBool bool
  | JNum int
  | JStr jsstr
  | JArr "jsval list"
  | JObj "jsstr \<Rightarrow> jsval option"

datatype jstype = TUndefined | TObject | TBoolean | TNumber | TString

fun typeof :: "jsval \<Rightarrow> jstype" where
  "typeof JUndefined = TUndefined"
| "typeof JNull = TObject"
| "typeof (JBool b) = TBoolean"
| "typeof (JNum n) = TNumber"
| "typeof (JStr s) = TString"
| "typeof (JArr xs) = TObject"
| "typeof (JObj m) = TObject"

text \<open>\<open>!v\<close> is \<open>\<not> truthy v\<close>.\<close>

fun truthy :: "jsval \<Rightarrow> bool" where
  "truthy JUndefined = False"
| "truthy JNull = False"
| "truthy (JBool b) = b"
| "truthy (JNum n) = (n \<noteq> 0)"
| "truthy (JStr s) = (s \<noteq> [])"
| "truthy (JArr xs) = True"
| "truthy (JObj m) = True"

text \<open>
  \<open>a === b\<close>. Primitives are compared by value. Objects and arrays are compared by
  identity, and every comparison in the code has a freshly loaded value on one side, so
  two objects are never identical there.
\<close>

fun strict_eq :: "jsval \<Rightarrow> jsval \<Rightarrow> bool" where
  "strict_eq JUndefined JUndefined = True"
| "strict_eq JNull JNull = True"
| "strict_eq (JBool a) (JBool b) = (a = b)"
| "strict_eq (JNum a) (JNum b) = (a = b)"
| "strict_eq (JStr a) (JStr b) = (a = b)"
| "strict_eq _ _ = False"

fun is_undefined :: "jsval \<Rightarrow> bool" where
  "is_undefined JUndefined = True"
| "is_undefined _ = False"

fun is_null :: "jsval \<Rightarrow> bool" where
  "is_null JNull = True"
| "is_null _ = False"

datatype error = InvalidInputError | StorageError | TypeError | ChromeError

text \<open>
  \<open>v.name\<close> for the property names the code reads (\<open>id\<close>, \<open>title\<close>, \<open>subtasks\<close> and so
  on; none of them is \<open>length\<close>, an index or a member of a prototype): reading a property
  of \<open>null\<close> or \<open>undefined\<close> throws, a missing property is \<open>undefined\<close>.
\<close>

fun get_prop :: "jsval \<Rightarrow> jsstr \<Rightarrow> error + jsval" where
  "get_prop JUndefined k = Inl TypeError"
| "get_prop JNull k = Inl TypeError"
| "get_prop (JObj m) k = Inr (case m k of None \<Rightarrow> JUndefined | Some v \<Rightarrow> v)"
| "get_prop _ k = Inr JUndefined"

section \<open>storage.js: StorageManager over chrome.storage.local\<close>

text \<open>
  The state of \<open>chrome.storage.local\<close>: the stored items, kept as they were written, and
  whether a \<open>get\<close> or a \<open>set\<close> call of the browser API rejects (store unavailable,
  quota exceeded).
\<close>

record chrome_storage =
  items :: "jsstr \<Rightarrow> jsval option"
  get_rejects :: bool
  set_rejects :: bool

text \<open>
  A storage key as the code passes it: a string, or \<open>undefined\<close> (\<open>None\<close>), which is
  what \<open>STORAGE_KEYS.YOUTUBE_VIDEOS\<close> evaluates to, \<open>STORAGE_KEYS\<close> having only
  \<open>TASKS\<close>, \<open>NOTES\<close> and \<open>SETTINGS\<close>. \<open>property_key\<close> is the property name that
  \<open>result[key]\<close> and \<open>{ [key]: value }\<close> use for it.
\<close>

type_synonym storage_key = "jsstr option"

fun property_key :: "storage_key \<Rightarrow> jsstr" where
  "property_key (Some k) = k"
| "property_key None = js ''undefined''"

definition STORAGE_KEYS_TASKS :: storage_key where
  "STORAGE_KEYS_TASKS = Some (js ''marketingProductivityExtension_tasks'')"

definition STORAGE_KEYS_NOTES :: storage_key where
  "STORAGE_KEYS_NOTES = Some (js ''marketingProductivityExtension_notes'')"


text \<open>
  \<open>chrome.storage.local.get(key)\<close>: the result object holds the item of a string key
  when there is one, and every item when the key is \<open>undefined\<close>.
\<close>

fun chrome_storage_local_get :: "chrome_storage \<Rightarrow> storage_key \<Rightarrow> error + (jsstr \<Rightarrow> jsval option)" where
  "chrome_storage_local_get s (Some k) =
     (if get_rejects s then Inl ChromeError else Inr ((items s) |` {k}))"
| "chrome_storage_local_get s None =
     (if get_rejects s then Inl ChromeError else Inr (items s))"

definition chrome_storage_local_set :: "chrome_storage \<Rightarrow> jsstr \<Rightarrow> jsval \<Rightarrow> (error + unit) \<times> chrome_storage" where
  "chrome_storage_local_set s k v =
     (if set_rejects s then (Inl ChromeError, s)
      else (Inr (), s\<lparr>items := (items s)(k \<mapsto> v)\<rparr>))"

text \<open>\<open>getItem\<close> rethrows what the browser API throws.\<close>

definition getItem :: "chrome_storage \<Rightarrow> storage_key \<Rightarrow> jsval \<Rightarrow> error + jsval" where
  "getItem s key defaultValue =
     (case chrome_storage_local_get s key of
        Inl e \<Rightarrow> Inl e
      | Inr result \<Rightarrow>
          (case result (property_key key) of
             None \<Rightarrow> Inr defaultValue
           | Some v \<Rightarrow> Inr (if \<not> is_undefined v then v else defaultValue)))"

definition setItem :: "chrome_storage \<Rightarrow> storage_key \<Rightarrow> jsval \<Rightarrow> (error + unit) \<times> chrome_storage" where
  "setItem s key v = chrome_storage_local_set s (property_key key) v"

definition getAllTasks :: "chrome_storage \<Rightarrow> error + jsval" where
  "getAllTasks s = getItem s STORAGE_KEYS_TASKS (JArr [])"

definition saveAllTasks :: "chrome_storage \<Rightarrow> jsval \<Rightarrow> (error + unit) \<times> chrome_storage" where
  "saveAllTasks s tasks = setItem s STORAGE_KEYS_TASKS tasks"

definition getAllNotes :: "chrome_storage \<Rightarrow> error + jsval" where
  "getAllNotes s = getItem s STORAGE_KEYS_NOTES (JArr [])"

section \<open>Array methods whose callback may throw\<close>

definition bindE :: "error + 'a \<Rightarrow> ('a \<Rightarrow> error + 'b) \<Rightarrow> error + 'b" where
  "bindE x f = (case x of Inl e \<Rightarrow> Inl e | Inr v \<Rightarrow> f v)"

text \<open>
  The receiver of \<open>find\<close>, \<open>findIndex\<close>, \<open>filter\<close>, \<open>some\<close> and \<open>push\<close>: on a value
  that is not an array the method is missing and the call throws.
\<close>

fun as_array :: "jsval \<Rightarrow> error + jsval list" where
  "as_array (JArr xs) = Inr xs"
| "as_array _ = Inl TypeError"

fun findIndex :: "('a \<Rightarrow> error + bool) \<Rightarrow> 'a list \<Rightarrow> error + nat option" where
  "findIndex p [] = Inr None"
| "findIndex p (x # xs) =
     (case p x of
        Inl e \<Rightarrow> Inl e
      | Inr True \<Rightarrow> Inr (Some 0)
      | Inr False \<Rightarrow>
          (case findIndex p xs of
             Inl e \<Rightarrow> Inl e
           | Inr None \<Rightarrow> Inr None
           | Inr (Some i) \<Rightarrow> Inr (Some (Suc i))))"

fun find_js :: "('a \<Rightarrow> error + bool) \<Rightarrow> 'a list \<Rightarrow> error + 'a option" where
  "find_js p [] = Inr None"
| "find_js p (x # xs) =
     (case p x of
        Inl e \<Rightarrow> Inl e
      | Inr True \<Rightarrow> Inr (Some x)
      | Inr False \<Rightarrow> find_js p xs)"

fun filter_js :: "('a \<Rightarrow> error + bool) \<Rightarrow> 'a list \<Rightarrow> error + 'a list" where
  "filter_js p [] = Inr []"
| "filter_js p (x # xs) =
     (case p x of
        Inl e \<Rightarrow> Inl e
      | Inr b \<Rightarrow>
          (case filter_js p xs of
             Inl e \<Rightarrow> Inl e
           | Inr ys \<Rightarrow> Inr (if b then x # ys else ys)))"


text \<open>The callbacks \<open>x => x.id === id\<close> and \<open>x => x.id !== id\<close>.\<close>

definition id_is :: "jsval \<Rightarrow> jsval \<Rightarrow> error + bool" where
  "id_is tid x = bindE (get_prop x (js ''id'')) (\<lambda>v. Inr (strict_eq v tid))"

definition id_is_not :: "jsval \<Rightarrow> jsval \<Rightarrow> error + bool" where
  "id_is_not tid x = bindE (get_prop x (js ''id'')) (\<lambda>v. Inr (\<not> strict_eq v tid))"

section \<open>Object spread\<close>

text \<open>The decimal name of an array index.\<close>

fun dec :: "nat \<Rightarrow> jsstr" where
  "dec n = (if n < 10 then [48 + n] else dec (n div 10) @ [48 + n mod 10])"

declare dec.simps [simp del]

text \<open>
  The own enumerable properties that \<open>{...v}\<close> copies: those of an object, the indexed
  elements of an array or string, nothing for the other values.
\<close>

fun own_props :: "jsval \<Rightarrow> (jsstr \<Rightarrow> jsval option)" where
  "own_props (JObj m) = m"
| "own_props (JArr xs) = map_of (zip (map dec [0..<length xs]) xs)"
| "own_props (JStr s) = map_of (zip (map dec [0..<length s]) (map (\<lambda>c. JStr [c]) s))"
| "own_props _ = Map.empty"

section \<open>task.js: TaskManager\<close>

text \<open>
  \<open>_generateUniqueId\<close> returns what \<open>crypto.randomUUID()\<close> returns; without it, the
  fallback builds \<open>_<Date.now() in base 36>_<digits of Math.random()>\<close>. Both the UUID
  and the random digits come from the platform.
\<close>

datatype idsource = RandomUUID jsstr | Fallback int jsstr

fun base36 :: "nat \<Rightarrow> jsstr" where
  "base36 n =
     (let d = n mod 36; c = (if d < 10 then 48 + d else 87 + d)
      in if n < 36 then [c] else base36 (n div 36) @ [c])"

declare base36.simps [simp del]

definition toString36 :: "int \<Rightarrow> jsstr" where
  "toString36 t = (if t < 0 then 45 # base36 (nat (- t)) else base36 (nat t))"

fun generateUniqueId :: "idsource \<Rightarrow> jsstr" where
  "generateUniqueId (RandomUUID u) = u"
| "generateUniqueId (Fallback t r) = js ''_'' @ toString36 t @ js ''_'' @ r"

text \<open>\<open>_getTasks\<close> and \<open>_saveTasks\<close> wrap every failure of the storage module.\<close>

definition getTasks :: "chrome_storage \<Rightarrow> error + jsval" where
  "getTasks s = (case getAllTasks s of Inl e \<Rightarrow> Inl StorageError | Inr tasks \<Rightarrow> Inr tasks)"

definition saveTasks :: "chrome_storage \<Rightarrow> jsval \<Rightarrow> (error + unit) \<times> chrome_storage" where
  "saveTasks s tasks =
     (case saveAllTasks s tasks of
        (Inl e, s') \<Rightarrow> (Inl StorageError, s')
      | (Inr u, s') \<Rightarrow> (Inr (), s'))"

text \<open>
  The operations take the storage state, the readings of \<open>Date.now()\<close> that they make
  and, where an id is generated, its source; they return the value or the error thrown,
  and the storage state afterwards.
\<close>

definition createTask :: "chrome_storage \<Rightarrow> int \<Rightarrow> idsource \<Rightarrow> jsval \<Rightarrow> (error + jsval) \<times> chrome_storage" where
  "createTask s now src taskData =
     (if \<not> truthy taskData \<or> typeof taskData \<noteq> TObject then (Inl InvalidInputError, s)
      else case get_prop taskData (js ''title'') of
        Inl e \<Rightarrow> (Inl e, s)
      | Inr title \<Rightarrow>
          if \<not> truthy title then (Inl InvalidInputError, s)
          else case getTasks s of
            Inl e \<Rightarrow> (Inl e, s)
          | Inr tasks \<Rightarrow>
              (case bindE (get_prop taskData (js ''description'')) (\<lambda>description.
                    bindE (get_prop taskData (js ''dueDate'')) (\<lambda>dueDate.
                    let newTask = JObj [
                          js ''id'' \<mapsto> JStr (generateUniqueId src),
                          js ''title'' \<mapsto> title,
                          js ''description'' \<mapsto> (if truthy description then description else JStr []),
                          js ''dueDate'' \<mapsto> (if truthy dueDate then dueDate else JNull),
                          js ''isComplete'' \<mapsto> JBool False,
                          js ''createdAt'' \<mapsto> JNum now,
                          js ''updatedAt'' \<mapsto> JNum now,
                          js ''subtasks'' \<mapsto> JArr []]
                    in bindE (as_array tasks) (\<lambda>ts. Inr (newTask, JArr (ts @ [newTask]))))) of
                 Inl e \<Rightarrow> (Inl e, s)
               | Inr (newTask, tasks') \<Rightarrow>
                   (case saveTasks s tasks' of
                      (Inl e, s') \<Rightarrow> (Inl e, s')
                    | (Inr u, s') \<Rightarrow> (Inr newTask, s'))))"




definition getTaskById :: "chrome_storage \<Rightarrow> jsval \<Rightarrow> error + jsval" where
  "getTaskById s tid =
     (if \<not> truthy tid then Inl InvalidInputError
      else bindE (getTasks s) (\<lambda>tasks.
           bindE (as_array tasks) (\<lambda>ts.
           bindE (find_js (id_is tid) ts) (\<lambda>found.
           let task = (case found of None \<Rightarrow> JUndefined | Some t \<Rightarrow> t)
           in Inr (if truthy task then task else JNull)))))"

definition updateTask :: "chrome_storage \<Rightarrow> int \<Rightarrow> jsval \<Rightarrow> jsval \<Rightarrow> (error + jsval) \<times> chrome_storage" where
  "updateTask s now tid newData =
     (if \<not> truthy tid \<or> typeof newData \<noteq> TObject \<or> is_null newData then (Inl InvalidInputError, s)
      else case bindE (getTasks s) (\<lambda>tasks.
                bindE (as_array tasks) (\<lambda>ts.
                bindE (findIndex (id_is tid) ts) (\<lambda>taskIndex. Inr (ts, taskIndex)))) of
        Inl e \<Rightarrow> (Inl e, s)
      | Inr (ts, None) \<Rightarrow> (Inr JNull, s)
      | Inr (ts, Some taskIndex) \<Rightarrow>
          (case bindE (get_prop (ts ! taskIndex) (js ''id'')) (\<lambda>oldId.
                bindE (get_prop (ts ! taskIndex) (js ''subtasks'')) (\<lambda>oldSubtasks.
                Inr (JObj ((own_props (ts ! taskIndex) ++ own_props newData)
                       (js ''id'' \<mapsto> oldId,
                        js ''subtasks'' \<mapsto> oldSubtasks,
                        js ''updatedAt'' \<mapsto> JNum now))))) of
             Inl e \<Rightarrow> (Inl e, s)
           | Inr updatedTask \<Rightarrow>
               (case saveTasks s (JArr (ts[taskIndex := updatedTask])) of
                  (Inl e, s') \<Rightarrow> (Inl e, s')
                | (Inr u, s') \<Rightarrow> (Inr updatedTask, s'))))"

definition deleteTask :: "chrome_storage \<Rightarrow> jsval \<Rightarrow> (error + bool) \<times> chrome_storage" where
  "deleteTask s tid =
     (if \<not> truthy tid then (Inl InvalidInputError, s)
      else case bindE (getTasks s) (\<lambda>tasks.
                bindE (as_array tasks) (\<lambda>ts.
                bindE (filter_js (id_is_not tid) ts) (\<lambda>filteredTasks. Inr (ts, filteredTasks)))) of
        Inl e \<Rightarrow> (Inl e, s)
      | Inr (ts, filteredTasks) \<Rightarrow>
          if length filteredTasks = length ts then (Inr False, s)
          else (case saveTasks s (JArr filteredTasks) of
                  (Inl e, s') \<Rightarrow> (Inl e, s')
                | (Inr u, s') \<Rightarrow> (Inr True, s')))"

text \<open>
  \<open>o.name = v\<close>. The code assigns only to a task or subtask that matched an id, which
  is an object; assigning to a property of \<open>null\<close>, \<open>undefined\<close> or (the modules being
  strict code) a primitive throws.
\<close>

fun set_prop :: "jsval \<Rightarrow> jsstr \<Rightarrow> jsval \<Rightarrow> error + jsval" where
  "set_prop (JObj m) k v = Inr (JObj (m(k \<mapsto> v)))"
| "set_prop _ k v = Inl TypeError"

definition deleteSubtask :: "chrome_storage \<Rightarrow> int \<Rightarrow> jsval \<Rightarrow> jsval \<Rightarrow> (error + bool) \<times> chrome_storage" where
  "deleteSubtask s now taskId subtaskId =
     (if \<not> truthy taskId \<or> \<not> truthy subtaskId then (Inl InvalidInputError, s)
      else case bindE (getTasks s) (\<lambda>tasks.
                bindE (as_array tasks) (\<lambda>ts.
                bindE (findIndex (id_is taskId) ts) (\<lambda>taskIndex. Inr (ts, taskIndex)))) of
        Inl e \<Rightarrow> (Inl e, s)
      | Inr (ts, None) \<Rightarrow> (Inr False, s)
      | Inr (ts, Some taskIndex) \<Rightarrow>
          (case bindE (get_prop (ts ! taskIndex) (js ''subtasks'')) (\<lambda>subtasks.
                bindE (as_array subtasks) (\<lambda>subs.
                bindE (filter_js (id_is_not subtaskId) subs) (\<lambda>filtered.
                bindE (set_prop (ts ! taskIndex) (js ''subtasks'') (JArr filtered)) (\<lambda>task.
                Inr (length subs, filtered, task))))) of
             Inl e \<Rightarrow> (Inl e, s)
           | Inr (initialSubtaskCount, filtered, task) \<Rightarrow>
               if length filtered = initialSubtaskCount then (Inr False, s)
               else (case set_prop task (js ''updatedAt'') (JNum now) of
                       Inl e \<Rightarrow> (Inl e, s)
                     | Inr task' \<Rightarrow>
                         (case saveTasks s (JArr (ts[taskIndex := task'])) of
                            (Inl e, s') \<Rightarrow> (Inl e, s')
                          | (Inr u, s') \<Rightarrow> (Inr True, s')))))"

text \<open>
  \<open>markSubtaskStatus\<close> reads the clock twice: \<open>now1\<close> for the subtask, then \<open>now2\<close>
  for the parent task.
\<close>

definition markSubtaskStatus ::
  "chrome_storage \<Rightarrow> int \<Rightarrow> int \<Rightarrow> jsval \<Rightarrow> jsval \<Rightarrow> jsval \<Rightarrow> (error + jsval) \<times> chrome_storage" where
  "markSubtaskStatus s now1 now2 taskId subtaskId isComplete =
     (if \<not> truthy taskId \<or> \<not> truthy subtaskId \<or> typeof isComplete \<noteq> TBoolean
      then (Inl InvalidInputError, s)
      else case bindE (getTasks s) (\<lambda>tasks.
                bindE (as_array tasks) (\<lambda>ts.
                bindE (findIndex (id_is taskId) ts) (\<lambda>taskIndex. Inr (ts, taskIndex)))) of
        Inl e \<Rightarrow> (Inl e, s)
      | Inr (ts, None) \<Rightarrow> (Inr JNull, s)
      | Inr (ts, Some taskIndex) \<Rightarrow>
          (case bindE (get_prop (ts ! taskIndex) (js ''subtasks'')) (\<lambda>subtasks.
                bindE (as_array subtasks) (\<lambda>subs.
                bindE (findIndex (id_is subtaskId) subs) (\<lambda>subtaskIndex. Inr (subs, subtaskIndex)))) of
             Inl e \<Rightarrow> (Inl e, s)
           | Inr (subs, None) \<Rightarrow> (Inr JNull, s)
           | Inr (subs, Some subtaskIndex) \<Rightarrow>
               (case bindE (set_prop (subs ! subtaskIndex) (js ''isComplete'') isComplete) (\<lambda>sub1.
                     bindE (set_prop sub1 (js ''updatedAt'') (JNum now1)) (\<lambda>sub2.
                     bindE (set_prop (ts ! taskIndex) (js ''subtasks'')
                              (JArr (subs[subtaskIndex := sub2]))) (\<lambda>task1.
                     bindE (set_prop task1 (js ''updatedAt'') (JNum now2)) (\<lambda>task2.
                     Inr (sub2, task2))))) of
                  Inl e \<Rightarrow> (Inl e, s)
                | Inr (sub2, task2) \<Rightarrow>
                    (case saveTasks s (JArr (ts[taskIndex := task2])) of
                       (Inl e, s') \<Rightarrow> (Inl e, s')
                     | (Inr u, s') \<Rightarrow> (Inr sub2, s')))))"

text \<open>A property of the value an operation returned.\<close>

definition result_prop :: "error + jsval \<Rightarrow> jsstr \<Rightarrow> error + jsval" where
  "result_prop r k = bindE r (\<lambda>v. get_prop v k)"

text \<open>The task collection as stored after a successful save.\<close>

definition with_tasks :: "chrome_storage \<Rightarrow> jsval list \<Rightarrow> chrome_storage" where
  "with_tasks s ts = s\<lparr>items := (items s)(property_key STORAGE_KEYS_TASKS \<mapsto> JArr ts)\<rparr>"

section \<open>Regular expressions\<close>

text \<open>
  The character classes of the source's patterns, on code units: \<open>\s\<close> (white space and
  line terminators, also what \<open>trim\<close> removes), \<open>.\<close> (anything but a line terminator),
  \<open>\d\<close>, and the classes written out in the patterns.
\<close>

definition is_space :: "jschar \<Rightarrow> bool" where
  "is_space c \<longleftrightarrow>
     c \<in> set [9, 10, 11, 12, 13, 32, 160, 5760, 8232, 8233, 8239, 8287, 12288, 65279]
     \<or> (8192 \<le> c \<and> c \<le> 8202)"

definition is_dot :: "jschar \<Rightarrow> bool" where
  "is_dot c \<longleftrightarrow> c \<notin> set [10, 13, 8232, 8233]"

definition is_digit :: "jschar \<Rightarrow> bool" where
  "is_digit c \<longleftrightarrow> 48 \<le> c \<and> c \<le> 57"

definition is_id_char :: "jschar \<Rightarrow> bool" where
  "is_id_char c \<longleftrightarrow>
     (97 \<le> c \<and> c \<le> 122) \<or> (65 \<le> c \<and> c \<le> 90) \<or> (48 \<le> c \<and> c \<le> 57) \<or> c = 95 \<or> c = 45"

definition not_slash_newline_space :: "jschar \<Rightarrow> bool" where
  "not_slash_newline_space c \<longleftrightarrow> c \<noteq> 47 \<and> c \<noteq> 10 \<and> \<not> is_space c"

definition not_space :: "jschar \<Rightarrow> bool" where
  "not_space c \<longleftrightarrow> \<not> is_space c"

definition question_or_amp :: "jschar \<Rightarrow> bool" where
  "question_or_amp c \<longleftrightarrow> c = 63 \<or> c = 38"

text \<open>
  The patterns of the source repeat character classes only, so the syntax has the three
  repetitions (\<open>*\<close>, \<open>+\<close>, \<open>{n}\<close>) on a class.
\<close>

datatype regex =
    Lit jsstr
  | Class "jschar \<Rightarrow> bool"
  | Seq regex regex
  | Alt regex regex
  | Opt regex
  | Star "jschar \<Rightarrow> bool"
  | Plus "jschar \<Rightarrow> bool"
  | Repeat nat "jschar \<Rightarrow> bool"

text \<open>
  A backtracking matcher: \<open>rx_match r s\<close> lists what is left of \<open>s\<close> after each way of
  matching \<open>r\<close> at its start, in the order in which the engine tries them (the left
  alternative first, the longest repetition first). The first entry is the engine's choice.
\<close>

fun star_rest :: "(jschar \<Rightarrow> bool) \<Rightarrow> jsstr \<Rightarrow> jsstr list" where
  "star_rest p [] = [[]]"
| "star_rest p (c # cs) = (if p c then star_rest p cs @ [c # cs] else [c # cs])"

fun rx_match :: "regex \<Rightarrow> jsstr \<Rightarrow> jsstr list" where
  "rx_match (Lit l) s = (if take (length l) s = l then [drop (length l) s] else [])"
| "rx_match (Class p) s = (case s of [] \<Rightarrow> [] | c # cs \<Rightarrow> if p c then [cs] else [])"
| "rx_match (Seq a b) s = concat (map (rx_match b) (rx_match a s))"
| "rx_match (Alt a b) s = rx_match a s @ rx_match b s"
| "rx_match (Opt a) s = rx_match a s @ [s]"
| "rx_match (Star p) s = star_rest p s"
| "rx_match (Plus p) s = (case s of [] \<Rightarrow> [] | c # cs \<Rightarrow> if p c then star_rest p cs else [])"
| "rx_match (Repeat n p) s =
     (if n \<le> length s \<and> list_all p (take n s) then [drop n s] else [])"

text \<open>
  \<open>s.match(/pre(grp)/)\<close> for a pattern that ends in its only capture group: the text of
  the group in the first match at this position, and at the leftmost position that has one.
\<close>

definition match_at :: "regex \<Rightarrow> regex \<Rightarrow> jsstr \<Rightarrow> jsstr option" where
  "match_at pre grp s =
     (case concat (map (\<lambda>r. map (\<lambda>r'. take (length r - length r') r) (rx_match grp r))
                       (rx_match pre s)) of
        [] \<Rightarrow> None
      | g # gs \<Rightarrow> Some g)"

fun rx_exec :: "regex \<Rightarrow> regex \<Rightarrow> jsstr \<Rightarrow> jsstr option" where
  "rx_exec pre grp [] = match_at pre grp []"
| "rx_exec pre grp (c # cs) =
     (case match_at pre grp (c # cs) of
        Some g \<Rightarrow> Some g
      | None \<Rightarrow> rx_exec pre grp cs)"

text \<open>\<open>/^r$/.test(s)\<close>: some way of matching \<open>r\<close> uses up the whole string.\<close>

definition rx_test_whole :: "regex \<Rightarrow> jsstr \<Rightarrow> bool" where
  "rx_test_whole r s \<longleftrightarrow> [] \<in> set (rx_match r s)"

section \<open>youtube.js\<close>

text \<open>
  The pattern of \<open>extractVideoId\<close>, up to its capture group:
  \<^verbatim>\<open>(?:youtube\.com\/(?:[^\/\n\s]+\/\S+\/|(?:v|e(?:mbed)?|shorts)\/|.*[?&]v=)|youtu\.be\/)\<close>
  and the group \<^verbatim>\<open>([a-zA-Z0-9_-]{11})\<close>.
\<close>

definition videoIdPrefix :: regex where
  "videoIdPrefix =
     Alt (Seq (Lit (js ''youtube.com/''))
            (Alt (Seq (Plus not_slash_newline_space)
                    (Seq (Lit (js ''/'')) (Seq (Plus not_space) (Lit (js ''/'')))))
            (Alt (Seq (Alt (Lit (js ''v''))
                        (Alt (Seq (Lit (js ''e'')) (Opt (Lit (js ''mbed''))))
                             (Lit (js ''shorts''))))
                    (Lit (js ''/'')))
                 (Seq (Star is_dot) (Seq (Class question_or_amp) (Lit (js ''v='')))))))
         (Lit (js ''youtu.be/''))"

definition videoIdGroup :: regex where
  "videoIdGroup = Repeat 11 is_id_char"

definition extractVideoId :: "jsval \<Rightarrow> jsval" where
  "extractVideoId url =
     (if typeof url \<noteq> TString \<or> \<not> truthy url then JNull
      else case url of
        JStr u \<Rightarrow>
          (case rx_exec videoIdPrefix videoIdGroup u of
             Some g \<Rightarrow> JStr g
           | None \<Rightarrow> JNull)
      | _ \<Rightarrow> JNull)"

definition getEmbedUrl :: "jsval \<Rightarrow> jsval" where
  "getEmbedUrl videoId =
     (case videoId of
        JStr v \<Rightarrow>
          if length v \<noteq> 11 then JNull
          else JStr (js ''https://www.youtube.com/embed/'' @ v)
      | _ \<Rightarrow> JNull)"

section \<open>inputvalidator.js\<close>

definition trim :: "jsstr \<Rightarrow> jsstr" where
  "trim s = rev (dropWhile is_space (rev (dropWhile is_space s)))"

definition MAX_SAFE_INTEGER :: int where
  "MAX_SAFE_INTEGER = 9007199254740991"

definition isValidText :: "jsval \<Rightarrow> jsval \<Rightarrow> jsval \<Rightarrow> bool" where
  "isValidText text minimum maximum =
     (case text of
        JStr t \<Rightarrow>
          (let trimmedText = trim t;
               minVal = (case minimum of JNum n \<Rightarrow> if n \<ge> 0 then n else 0 | _ \<Rightarrow> 0);
               maxVal = (case maximum of
                           JNum n \<Rightarrow> if n \<ge> minVal then n else MAX_SAFE_INTEGER
                         | _ \<Rightarrow> MAX_SAFE_INTEGER)
           in int (length trimmedText) \<ge> minVal \<and> int (length trimmedText) \<le> maxVal)
      | _ \<Rightarrow> False)"



subsection \<open>Dates\<close>

text \<open>
  The calendar of \<open>Date\<close>: the proleptic Gregorian calendar, days counted from
  1970-01-01. \<open>days_from_civil y m d\<close> is \<open>MakeDay\<close> for a month \<open>m\<close> from 1 to 12; a
  day \<open>d\<close> past the end of the month runs into the next one. \<open>civil_from_days\<close> gives
  the year, month (from 1) and day of the month of a day number.
\<close>

definition days_from_civil :: "int \<Rightarrow> int \<Rightarrow> int \<Rightarrow> int" where
  "days_from_civil y m d =
     (let y' = (if m \<le> 2 then y - 1 else y);
          era = y' div 400;
          yoe = y' - era * 400;
          mp = (if m > 2 then m - 3 else m + 9);
          doy = (153 * mp + 2) div 5 + d - 1;
          doe = yoe * 365 + yoe div 4 - yoe div 100 + doy
      in era * 146097 + doe - 719468)"

definition civil_from_days :: "int \<Rightarrow> int \<times> int \<times> int" where
  "civil_from_days z =
     (let z' = z + 719468;
          era = z' div 146097;
          doe = z' - era * 146097;
          yoe = (doe - doe div 1460 + doe div 36524 - doe div 146096) div 365;
          doy = doe - (365 * yoe + yoe div 4 - yoe div 100);
          mp = (5 * doy + 2) div 153;
          d = doy - (153 * mp + 2) div 5 + 1;
          m = (if mp < 10 then mp + 3 else mp - 9);
          y = yoe + era * 400
      in (if m \<le> 2 then y + 1 else y, m, d))"

definition msPerDay :: int where
  "msPerDay = 86400000"

text \<open>\<open>parseInt(s, 10)\<close> of a string of decimal digits.\<close>

definition parseInt :: "jsstr \<Rightarrow> int" where
  "parseInt s = foldl (\<lambda>n c. 10 * n + (int c - 48)) 0 s"

definition substring :: "jsstr \<Rightarrow> nat \<Rightarrow> nat \<Rightarrow> jsstr" where
  "substring s a b = take (b - a) (drop a s)"

text \<open>
  \<open>new Date(s).getTime()\<close> for a string of the form \<open>YYYY-MM-DD\<close>, as V8 parses it: a
  date-only form is midnight UTC of that day; any day from 1 to 31 is taken and carried
  into the next month when the month is shorter; otherwise the date is invalid (\<open>NaN\<close>,
  here \<open>None\<close>).
\<close>

definition Date_parse :: "jsstr \<Rightarrow> int option" where
  "Date_parse s =
     (let y = parseInt (substring s 0 4);
          m = parseInt (substring s 5 7);
          d = parseInt (substring s 8 10)
      in if 1 \<le> m \<and> m \<le> 12 \<and> 1 \<le> d \<and> d \<le> 31
         then Some (days_from_civil y m d * msPerDay)
         else None)"

text \<open>
  \<open>getFullYear\<close>, \<open>getMonth\<close> and \<open>getDate\<close> read the date in local time: \<open>tz\<close> is
  the offset of the host's time zone at that instant, in minutes east of UTC.
\<close>

definition local_civil :: "int \<Rightarrow> int \<Rightarrow> int \<times> int \<times> int" where
  "local_civil tz t = civil_from_days ((t + tz * 60000) div msPerDay)"

definition getFullYear :: "int \<Rightarrow> int \<Rightarrow> int" where
  "getFullYear tz t = fst (local_civil tz t)"

definition getMonth :: "int \<Rightarrow> int \<Rightarrow> int" where
  "getMonth tz t = fst (snd (local_civil tz t)) - 1"

definition getDate :: "int \<Rightarrow> int \<Rightarrow> int" where
  "getDate tz t = snd (snd (local_civil tz t))"

text \<open>The pattern \<^verbatim>\<open>^\d{4}-\d{2}-\d{2}$\<close>.\<close>

definition dateFormatRegex :: regex where
  "dateFormatRegex =
     Seq (Repeat 4 is_digit) (Seq (Lit (js ''-''))
       (Seq (Repeat 2 is_digit) (Seq (Lit (js ''-'')) (Repeat 2 is_digit))))"

definition isValidDate :: "int \<Rightarrow> jsval \<Rightarrow> bool" where
  "isValidDate tz dateString =
     (case dateString of
        JStr ds \<Rightarrow>
          if trim ds = [] then False
          else if \<not> rx_test_whole dateFormatRegex ds then False
          else (case Date_parse ds of
                  None \<Rightarrow> False
                | Some t \<Rightarrow>
                    getFullYear tz t = parseInt (substring ds 0 4)
                    \<and> getMonth tz t + 1 = parseInt (substring ds 5 7)
                    \<and> getDate tz t = parseInt (substring ds 8 10))
      | _ \<Rightarrow> False)"

section \<open>popup.js: adding a video\<close>





section \<open>background.js: installation\<close>


section \<open>Example states\<close>

definition never_written :: "chrome_storage" where
  "never_written = \<lparr>items = Map.empty, get_rejects = False, set_rejects = False\<rparr>"

definition sub_x :: jsval where
  "sub_x = JObj [
     js ''id'' \<mapsto> JStr (js ''x''),
     js ''title'' \<mapsto> JStr (js ''2%''),
     js ''isComplete'' \<mapsto> JBool False,
     js ''createdAt'' \<mapsto> JNum 1700000060000,
     js ''updatedAt'' \<mapsto> JNum 1700000060000]"

definition task_a :: jsval where
  "task_a = JObj [
     js ''id'' \<mapsto> JStr (js ''a''),
     js ''title'' \<mapsto> JStr (js ''Buy milk''),
     js ''description'' \<mapsto> JStr [],
     js ''dueDate'' \<mapsto> JNull,
     js ''isComplete'' \<mapsto> JBool False,
     js ''createdAt'' \<mapsto> JNum 1700000060000,
     js ''updatedAt'' \<mapsto> JNum 1700000060000,
     js ''subtasks'' \<mapsto> JArr [sub_x]]"

definition store_a :: chrome_storage where
  "store_a = \<lparr>items = [property_key STORAGE_KEYS_TASKS \<mapsto> JArr [task_a]],
              get_rejects = False, set_rejects = False\<rparr>"

definition store_a_full :: chrome_storage where
  "store_a_full = store_a\<lparr>set_rejects := True\<rparr>"








section \<open>Facts about the helpers\<close>

lemma js_Nil [simp]: "js [] = []"
  by (simp add: js_def)

lemma js_eq_Nil_iff [simp]: "js s = [] \<longleftrightarrow> s = []"
  by (simp add: js_def)

lemma js_eq_iff [simp]: "js a = js b \<longleftrightarrow> a = b"
  unfolding js_def by (rule inj_map_eq_map [OF inj_of_char])

lemma bindE_Inr [simp]: "bindE (Inr v) f = f v"
  by (simp add: bindE_def)

lemma bindE_Inl [simp]: "bindE (Inl e) f = Inl e"
  by (simp add: bindE_def)

lemma strict_eq_same: "strict_eq a b \<Longrightarrow> a = b"
  by (cases a; cases b) simp_all

lemma as_array_Inr: "as_array v = Inr xs \<Longrightarrow> v = JArr xs"
  by (cases v) simp_all

lemma truthy_object_props:
  "truthy v \<Longrightarrow> typeof v = TObject \<Longrightarrow> \<exists>x. get_prop v k = Inr x"
  by (cases v) simp_all

subsection \<open>Storage\<close>

lemma getItem_items:
  "\<not> get_rejects s \<Longrightarrow>
   getItem s key d =
     (case items s (property_key key) of
        None \<Rightarrow> Inr d
      | Some v \<Rightarrow> Inr (if \<not> is_undefined v then v else d))"
  by (cases key) (simp_all add: getItem_def restrict_map_def)




lemmas storage_defs =
  getTasks_def getAllTasks_def getItem_def saveTasks_def saveAllTasks_def setItem_def
  chrome_storage_local_set_def STORAGE_KEYS_TASKS_def with_tasks_def

lemma saveTasks_ok:
  "\<not> set_rejects s \<Longrightarrow> saveTasks s (JArr ts) = (Inr (), with_tasks s ts)"
  by (simp add: saveTasks_def saveAllTasks_def setItem_def chrome_storage_local_set_def with_tasks_def)

lemma saveTasks_rejected:
  "set_rejects s \<Longrightarrow> saveTasks s v = (Inl StorageError, s)"
  by (simp add: saveTasks_def saveAllTasks_def setItem_def chrome_storage_local_set_def)

lemma getTasks_error: "getTasks s = Inl e \<Longrightarrow> e = StorageError"
  by (auto simp: getTasks_def split: sum.splits)

lemma saveTasks_error: "fst (saveTasks s v) = Inl e \<Longrightarrow> e = StorageError"
  by (auto simp: saveTasks_def split: sum.splits prod.splits)

lemma getTasks_with_tasks:
  "\<not> get_rejects s \<Longrightarrow> getTasks (with_tasks s ts) = Inr (JArr ts)"
  by (simp add: storage_defs)

subsection \<open>Array methods\<close>

lemma findIndex_none:
  "\<forall>x\<in>set xs. p x = Inr False \<Longrightarrow> findIndex p xs = Inr None"
  by (induction xs) simp_all

lemma findIndex_Some:
  "findIndex p xs = Inr (Some i) \<Longrightarrow> i < length xs \<and> p (xs ! i) = Inr True"
proof (induction xs arbitrary: i)
  case Nil
  then show ?case by simp
next
  case (Cons x xs)
  show ?case
  proof (cases "p x")
    case (Inl e)
    with Cons.prems show ?thesis by simp
  next
    case (Inr b)
    show ?thesis
    proof (cases b)
      case True
      with Inr Cons.prems show ?thesis by simp
    next
      case False
      with Inr Cons.prems obtain j where "findIndex p xs = Inr (Some j)" "i = Suc j"
        by (auto split: sum.splits option.splits)
      with Cons.IH [of j] show ?thesis by simp
    qed
  qed
qed

lemma find_js_none:
  "\<forall>x\<in>set xs. p x = Inr False \<Longrightarrow> find_js p xs = Inr None"
  by (induction xs) simp_all

lemma id_is_not_False:
  "id_is tid x = Inr b \<Longrightarrow> id_is_not tid x = Inr (\<not> b)"
  by (cases "get_prop x (js ''id'')") (auto simp: id_is_def id_is_not_def)

lemma filter_js_id_is_not:
  "\<forall>x\<in>set xs. \<exists>b. id_is tid x = Inr b \<Longrightarrow>
   filter_js (id_is_not tid) xs = Inr (filter (\<lambda>x. id_is tid x = Inr False) xs)"
proof (induction xs)
  case Nil
  show ?case by simp
next
  case (Cons x xs)
  from Cons.prems obtain b where b: "id_is tid x = Inr b" by auto
  from Cons have ih: "filter_js (id_is_not tid) xs = Inr (filter (\<lambda>x. id_is tid x = Inr False) xs)"
    by simp
  show ?case using b ih by (simp add: id_is_not_False)
qed

lemma filter_shorter:
  "\<exists>x\<in>set xs. \<not> P x \<Longrightarrow> length (filter P xs) \<noteq> length xs"
  by (metis filter_id_conv length_filter_less less_irrefl filter_True)



lemma id_is_True_obj:
  "truthy tid \<Longrightarrow> id_is tid x = Inr True \<Longrightarrow> \<exists>m. x = JObj m"
  by (cases x; cases tid) (simp_all add: id_is_def)

lemma id_is_True_prop:
  "id_is tid x = Inr True \<Longrightarrow> get_prop x (js ''id'') = Inr tid"
  by (cases "get_prop x (js ''id'')") (auto simp: id_is_def dest: strict_eq_same)

lemma id_is_False_prop:
  "id_is (JStr u) x = Inr False \<Longrightarrow> get_prop x (js ''id'') \<noteq> Inr (JStr u)"
  by (cases "get_prop x (js ''id'')") (auto simp: id_is_def)

subsection \<open>The example states\<close>

lemma store_a_tasks: "getTasks store_a = Inr (JArr [task_a])"
  by (simp add: storage_defs store_a_def)

lemma store_a_full_tasks: "getTasks store_a_full = Inr (JArr [task_a])"
  by (simp add: storage_defs store_a_def store_a_full_def)

lemma store_a_writable: "\<not> set_rejects store_a"
  by (simp add: store_a_def)

lemma store_a_readable: "\<not> get_rejects store_a"
  by (simp add: store_a_def)

lemma task_a_id_a: "id_is (JStr (js ''a'')) task_a = Inr True"
  by (simp add: id_is_def task_a_def)

lemma task_a_id_b: "id_is (JStr (js ''b'')) task_a = Inr False"
  by (simp add: id_is_def task_a_def)

lemma sub_x_id_x: "id_is (JStr (js ''x'')) sub_x = Inr True"
  by (simp add: id_is_def sub_x_def)

lemma sub_x_id_y: "id_is (JStr (js ''y'')) sub_x = Inr False"
  by (simp add: id_is_def sub_x_def)

lemma task_a_subtasks: "get_prop task_a (js ''subtasks'') = Inr (JArr [sub_x])"
  by (simp add: task_a_def)

lemma empty_object: "typeof (JObj Map.empty) = TObject \<and> \<not> is_null (JObj Map.empty)"
  by simp









section \<open>Reading what was never written\<close>

text \<open>
  Claim C6. When the browser call resolves and nothing is stored under the key, \<open>getItem\<close>
  returns the default that the caller supplied; \<open>getAllTasks\<close> and \<open>getAllNotes\<close> supply
  the empty array, so loading a collection that was never written gives the empty sequence
  and no error.
\<close>

theorem loadAll_never_written:
  assumes "\<not> get_rejects s"
  shows "(items s (property_key key) = None \<longrightarrow> getItem s key d = Inr d)
       \<and> (items s (property_key STORAGE_KEYS_TASKS) = None \<longrightarrow> getAllTasks s = Inr (JArr []))
       \<and> (items s (property_key STORAGE_KEYS_NOTES) = None \<longrightarrow> getAllNotes s = Inr (JArr []))"
  using assms by (simp add: getItem_items getAllTasks_def getAllNotes_def)

text \<open>
  An instance of C6: the store in which nothing was written.
\<close>

theorem loadAll_never_written_witness:
  "\<not> get_rejects never_written
   \<and> items never_written (property_key STORAGE_KEYS_TASKS) = None
   \<and> getItem never_written STORAGE_KEYS_TASKS (JNum 7) = Inr (JNum 7)
   \<and> getAllTasks never_written = Inr (JArr [])
   \<and> getAllNotes never_written = Inr (JArr [])"
  using loadAll_never_written [of never_written STORAGE_KEYS_TASKS "JNum 7"]
  by (simp add: never_written_def)

section \<open>updateTask\<close>

lemma updateTask_found:
  assumes "getTasks s = Inr (JArr ts)" and "truthy tid"
    and "typeof newData = TObject" and "\<not> is_null newData"
    and "findIndex (id_is tid) ts = Inr (Some i)"
    and "ts ! i = JObj m"
  shows "updateTask s now tid newData =
     (let updated = JObj ((m ++ own_props newData)
                       (js ''id'' \<mapsto> (case m (js ''id'') of None \<Rightarrow> JUndefined | Some v \<Rightarrow> v),
                        js ''subtasks'' \<mapsto> (case m (js ''subtasks'') of None \<Rightarrow> JUndefined | Some v \<Rightarrow> v),
                        js ''updatedAt'' \<mapsto> JNum now))
      in case saveTasks s (JArr (ts[i := updated])) of
           (Inl e, s') \<Rightarrow> (Inl e, s')
         | (Inr u, s') \<Rightarrow> (Inr updated, s'))"
  using assms by (simp add: updateTask_def Let_def)

lemma updateTask_merges:
  assumes "getTasks s = Inr (JArr ts)" and "truthy tid"
    and "typeof newData = TObject" and "\<not> is_null newData"
    and "findIndex (id_is tid) ts = Inr (Some i)"
    and "\<not> set_rejects s"
  shows "\<exists>updated.
      updateTask s now tid newData = (Inr updated, with_tasks s (ts[i := updated]))
    \<and> get_prop updated (js ''id'') = get_prop (ts ! i) (js ''id'')
    \<and> get_prop updated (js ''id'') = Inr tid
    \<and> get_prop updated (js ''subtasks'') = get_prop (ts ! i) (js ''subtasks'')
    \<and> get_prop updated (js ''updatedAt'') = Inr (JNum now)
    \<and> (\<forall>k. k \<notin> {js ''id'', js ''subtasks'', js ''updatedAt''} \<longrightarrow>
          get_prop updated k =
            (case own_props newData k of Some v \<Rightarrow> Inr v | None \<Rightarrow> get_prop (ts ! i) k))"
proof -
  from assms have hit: "id_is tid (ts ! i) = Inr True"
    using findIndex_Some by blast
  with assms obtain m where m: "ts ! i = JObj m"
    using id_is_True_obj by blast
  define updated where "updated = JObj ((m ++ own_props newData)
                       (js ''id'' \<mapsto> (case m (js ''id'') of None \<Rightarrow> JUndefined | Some v \<Rightarrow> v),
                        js ''subtasks'' \<mapsto> (case m (js ''subtasks'') of None \<Rightarrow> JUndefined | Some v \<Rightarrow> v),
                        js ''updatedAt'' \<mapsto> JNum now))"
  have run: "updateTask s now tid newData = (Inr updated, with_tasks s (ts[i := updated]))"
    using assms by (simp add: updateTask_found [OF assms(1-5) m] saveTasks_ok updated_def Let_def)
  have p1: "get_prop updated (js ''id'') = get_prop (ts ! i) (js ''id'')"
    by (simp add: updated_def m)
  have p2: "get_prop updated (js ''id'') = Inr tid"
    using p1 id_is_True_prop [OF hit] by simp
  have p3: "get_prop updated (js ''subtasks'') = get_prop (ts ! i) (js ''subtasks'')"
    by (simp add: updated_def m)
  have p4: "get_prop updated (js ''updatedAt'') = Inr (JNum now)"
    by (simp add: updated_def)
  have p5: "\<forall>k. k \<notin> {js ''id'', js ''subtasks'', js ''updatedAt''} \<longrightarrow>
          get_prop updated k =
            (case own_props newData k of Some v \<Rightarrow> Inr v | None \<Rightarrow> get_prop (ts ! i) k)"
    by (auto simp: updated_def m map_add_def split: option.splits)
  from run p1 p2 p3 p4 p5 show ?thesis by blast
qed

lemma updateTask_store:
  "snd (updateTask s now tid newData) = s
   \<or> (\<exists>ts i updated. getTasks s = Inr (JArr ts) \<and> i < length ts
        \<and> snd (updateTask s now tid newData) = with_tasks s (ts[i := updated])
        \<and> get_prop updated (js ''id'') = get_prop (ts ! i) (js ''id'')
        \<and> get_prop updated (js ''subtasks'') = get_prop (ts ! i) (js ''subtasks''))"
proof (cases "truthy tid \<and> typeof newData = TObject \<and> \<not> is_null newData")
  case False
  then show ?thesis by (auto simp: updateTask_def)
next
  case valid: True
  show ?thesis
  proof (cases "getTasks s")
    case (Inl e)
    then show ?thesis using valid by (simp add: updateTask_def)
  next
    case (Inr tasks)
    show ?thesis
    proof (cases "as_array tasks")
      case (Inl e)
      then show ?thesis using valid Inr by (simp add: updateTask_def)
    next
      case arr: (Inr ts)
      then have tasks: "getTasks s = Inr (JArr ts)"
        using Inr as_array_Inr by blast
      show ?thesis
      proof (cases "findIndex (id_is tid) ts")
        case (Inl e)
        then show ?thesis using valid tasks by (simp add: updateTask_def)
      next
        case found: (Inr r)
        show ?thesis
        proof (cases r)
          case None
          then show ?thesis using valid tasks found by (simp add: updateTask_def)
        next
          case (Some i)
          with found have idx: "findIndex (id_is tid) ts = Inr (Some i)" by simp
          show ?thesis
          proof (cases "set_rejects s")
            case True
            from idx have "id_is tid (ts ! i) = Inr True"
              using findIndex_Some by blast
            with valid obtain m where m: "ts ! i = JObj m"
              using id_is_True_obj by blast
            have "snd (updateTask s now tid newData) = s"
              using valid True
              by (simp add: updateTask_found [OF tasks _ _ _ idx m] saveTasks_rejected Let_def)
            then show ?thesis ..
          next
            case False
            from updateTask_merges [OF tasks _ _ _ idx False, of newData now] valid
            obtain updated where
              "updateTask s now tid newData = (Inr updated, with_tasks s (ts[i := updated]))"
              "get_prop updated (js ''id'') = get_prop (ts ! i) (js ''id'')"
              "get_prop updated (js ''subtasks'') = get_prop (ts ! i) (js ''subtasks'')"
              by blast
            moreover from idx have "i < length ts"
              using findIndex_Some by blast
            ultimately show ?thesis using tasks by force
          qed
        qed
      qed
    qed
  qed
qed

text \<open>
  Claim C1. When \<open>updateTask\<close> is called with a provided id and an object \<open>newData\<close>,
  the id matches the stored task at index \<open>i\<close> and the store accepts the write, it returns
  a task with the id and the subtasks of the stored task (whatever \<open>newData\<close> holds under
  \<open>id\<close> and \<open>subtasks\<close>), with \<open>updatedAt\<close> set to the clock reading and every other
  property taken from \<open>newData\<close> where it has one and from the stored task otherwise; the
  stored collection is the old one with this task at index \<open>i\<close>. Whatever the arguments
  and the outcome, \<open>updateTask\<close> either leaves the store as it was or replaces one task by a
  task with the same id and subtasks.
\<close>

theorem updateTask_preserves_id_and_subtasks:
  "(getTasks s = Inr (JArr ts) \<and> truthy tid \<and> typeof newData = TObject \<and> \<not> is_null newData
      \<and> findIndex (id_is tid) ts = Inr (Some i) \<and> \<not> set_rejects s \<longrightarrow>
     (\<exists>updated.
        updateTask s now tid newData = (Inr updated, with_tasks s (ts[i := updated]))
      \<and> get_prop updated (js ''id'') = get_prop (ts ! i) (js ''id'')
      \<and> get_prop updated (js ''id'') = Inr tid
      \<and> get_prop updated (js ''subtasks'') = get_prop (ts ! i) (js ''subtasks'')
      \<and> get_prop updated (js ''updatedAt'') = Inr (JNum now)
      \<and> (\<forall>k. k \<notin> {js ''id'', js ''subtasks'', js ''updatedAt''} \<longrightarrow>
            get_prop updated k =
              (case own_props newData k of Some v \<Rightarrow> Inr v | None \<Rightarrow> get_prop (ts ! i) k))))
   \<and> (snd (updateTask s now tid newData) = s
      \<or> (\<exists>ts' j updated. getTasks s = Inr (JArr ts') \<and> j < length ts'
           \<and> snd (updateTask s now tid newData) = with_tasks s (ts'[j := updated])
           \<and> get_prop updated (js ''id'') = get_prop (ts' ! j) (js ''id'')
           \<and> get_prop updated (js ''subtasks'') = get_prop (ts' ! j) (js ''subtasks'')))"
  using updateTask_merges [of s ts tid newData i now] updateTask_store [of s now tid newData]
  by blast

text \<open>
  An instance of C1: \<open>newData\<close> brings its own \<open>id\<close>, \<open>subtasks\<close> and \<open>title\<close>; only
  the title is taken.
\<close>

theorem updateTask_preserves_id_and_subtasks_witness:
  "getTasks store_a = Inr (JArr [task_a])
   \<and> findIndex (id_is (JStr (js ''a''))) [task_a] = Inr (Some 0)
   \<and> (\<exists>updated.
        updateTask store_a 1700000120000 (JStr (js ''a''))
          (JObj [js ''id'' \<mapsto> JStr (js ''other''), js ''subtasks'' \<mapsto> JArr [JNum 1],
                 js ''title'' \<mapsto> JStr (js ''Buy eggs'')])
          = (Inr updated, with_tasks store_a [updated])
      \<and> get_prop updated (js ''id'') = Inr (JStr (js ''a''))
      \<and> get_prop updated (js ''subtasks'') = Inr (JArr [sub_x])
      \<and> get_prop updated (js ''updatedAt'') = Inr (JNum 1700000120000)
      \<and> get_prop updated (js ''title'') = Inr (JStr (js ''Buy eggs''))
      \<and> get_prop updated (js ''createdAt'') = Inr (JNum 1700000060000))"
proof -
  let ?newData = "JObj [js ''id'' \<mapsto> JStr (js ''other''), js ''subtasks'' \<mapsto> JArr [JNum 1],
                 js ''title'' \<mapsto> JStr (js ''Buy eggs'')]"
  have idx: "findIndex (id_is (JStr (js ''a''))) [task_a] = Inr (Some 0)"
    by (simp add: task_a_id_a)
  have hyps: "getTasks store_a = Inr (JArr [task_a]) \<and> truthy (JStr (js ''a''))
      \<and> typeof ?newData = TObject \<and> \<not> is_null ?newData
      \<and> findIndex (id_is (JStr (js ''a''))) [task_a] = Inr (Some 0) \<and> \<not> set_rejects store_a"
    by (simp add: store_a_tasks task_a_id_a) (simp add: store_a_def)
  from updateTask_preserves_id_and_subtasks
         [of store_a "[task_a]" "JStr (js ''a'')" ?newData 0 1700000120000] hyps
  obtain updated where u:
    "updateTask store_a 1700000120000 (JStr (js ''a'')) ?newData = (Inr updated, with_tasks store_a ([task_a][0 := updated]))"
    "get_prop updated (js ''id'') = Inr (JStr (js ''a''))"
    "get_prop updated (js ''subtasks'') = get_prop ([task_a] ! 0) (js ''subtasks'')"
    "get_prop updated (js ''updatedAt'') = Inr (JNum 1700000120000)"
    "\<forall>k. k \<notin> {js ''id'', js ''subtasks'', js ''updatedAt''} \<longrightarrow>
            get_prop updated k =
              (case own_props ?newData k of Some v \<Rightarrow> Inr v | None \<Rightarrow> get_prop ([task_a] ! 0) k)"
    by blast
  from u(5) have "get_prop updated (js ''title'') = Inr (JStr (js ''Buy eggs''))"
    by simp
  moreover from u(5) have "get_prop updated (js ''createdAt'') = Inr (JNum 1700000060000)"
    by (simp add: task_a_def)
  ultimately show ?thesis
    using u(1-4) store_a_tasks idx by (simp add: task_a_subtasks)
qed

section \<open>createTask\<close>

lemma createTask_invalid:
  "\<not> truthy taskData \<or> typeof taskData \<noteq> TObject
     \<or> (\<exists>t. get_prop taskData (js ''title'') = Inr t \<and> \<not> truthy t) \<Longrightarrow>
   createTask s now src taskData = (Inl InvalidInputError, s)"
  by (auto simp: createTask_def)

lemma createTask_valid:
  assumes "truthy taskData" and "typeof taskData = TObject"
    and "get_prop taskData (js ''title'') = Inr title" and "truthy title"
    and "getTasks s = Inr (JArr ts)" and "\<not> set_rejects s"
  shows "\<exists>description dueDate.
     get_prop taskData (js ''description'') = Inr description
   \<and> get_prop taskData (js ''dueDate'') = Inr dueDate
   \<and> createTask s now src taskData =
       (let newTask = JObj [
              js ''id'' \<mapsto> JStr (generateUniqueId src),
              js ''title'' \<mapsto> title,
              js ''description'' \<mapsto> (if truthy description then description else JStr []),
              js ''dueDate'' \<mapsto> (if truthy dueDate then dueDate else JNull),
              js ''isComplete'' \<mapsto> JBool False,
              js ''createdAt'' \<mapsto> JNum now,
              js ''updatedAt'' \<mapsto> JNum now,
              js ''subtasks'' \<mapsto> JArr []]
        in (Inr newTask, with_tasks s (ts @ [newTask])))"
proof -
  from assms obtain description where d: "get_prop taskData (js ''description'') = Inr description"
    using truthy_object_props by blast
  from assms obtain dueDate where e: "get_prop taskData (js ''dueDate'') = Inr dueDate"
    using truthy_object_props by blast
  have "createTask s now src taskData =
       (let newTask = JObj [
              js ''id'' \<mapsto> JStr (generateUniqueId src),
              js ''title'' \<mapsto> title,
              js ''description'' \<mapsto> (if truthy description then description else JStr []),
              js ''dueDate'' \<mapsto> (if truthy dueDate then dueDate else JNull),
              js ''isComplete'' \<mapsto> JBool False,
              js ''createdAt'' \<mapsto> JNum now,
              js ''updatedAt'' \<mapsto> JNum now,
              js ''subtasks'' \<mapsto> JArr []]
        in (Inr newTask, with_tasks s (ts @ [newTask])))"
    using assms by (simp add: createTask_def d e Let_def saveTasks_ok)
  with d e show ?thesis by blast
qed

lemma createTask_valid_error:
  assumes "truthy taskData" and "typeof taskData = TObject"
    and "get_prop taskData (js ''title'') = Inr title" and "truthy title"
  shows "fst (createTask s now src taskData) \<noteq> Inl InvalidInputError"
proof -
  from assms obtain description where d: "get_prop taskData (js ''description'') = Inr description"
    using truthy_object_props by blast
  from assms obtain dueDate where e: "get_prop taskData (js ''dueDate'') = Inr dueDate"
    using truthy_object_props by blast
  show ?thesis
  proof (cases "getTasks s")
    case (Inl err)
    then show ?thesis
      using assms getTasks_error [OF Inl] by (simp add: createTask_def)
  next
    case (Inr tasks)
    show ?thesis
    proof (cases "as_array tasks")
      case (Inl err)
      then have "err = TypeError" by (cases tasks) simp_all
      with Inl Inr show ?thesis
        using assms by (simp add: createTask_def d e Let_def)
    next
      case arr: (Inr xs)
      show ?thesis
      proof (cases "set_rejects s")
        case True
        then show ?thesis
          using assms Inr arr by (simp add: createTask_def d e Let_def saveTasks_rejected)
      next
        case False
        from arr have "tasks = JArr xs" by (rule as_array_Inr)
        with Inr have "getTasks s = Inr (JArr xs)" by simp
        from createTask_valid [OF assms this False, of now src]
        show ?thesis by (auto simp: Let_def)
      qed
    qed
  qed
qed







lemma blank_title_invalid_text: "\<not> isValidText (JStr (js '' '')) (JNum 1) JUndefined"
  by (simp add: isValidText_def trim_def is_space_def js_def)

text \<open>
  Claim C10. \<open>createTask\<close> throws \<open>InvalidInputError\<close> exactly when \<open>taskData\<close> is falsy,
  is not an object, or has a falsy title (absent, empty string). With a truthy title the
  task is created with that very value as its title. A title of one space is truthy, so it
  is stored as it is, although \<open>isValidText\<close> with minimum length 1, which measures the
  trimmed text, rejects it.
\<close>

theorem createTask_rejects_exactly_falsy_titles:
  "(fst (createTask s now src taskData) = Inl InvalidInputError \<longleftrightarrow>
      \<not> truthy taskData \<or> typeof taskData \<noteq> TObject
      \<or> (\<exists>t. get_prop taskData (js ''title'') = Inr t \<and> \<not> truthy t))
   \<and> (truthy taskData \<and> typeof taskData = TObject
       \<and> get_prop taskData (js ''title'') = Inr title \<and> truthy title
       \<and> getTasks s = Inr (JArr ts) \<and> \<not> set_rejects s \<longrightarrow>
      (\<exists>newTask.
          createTask s now src taskData = (Inr newTask, with_tasks s (ts @ [newTask]))
        \<and> get_prop newTask (js ''title'') = Inr title))
   \<and> truthy (JStr (js '' ''))
   \<and> \<not> isValidText (JStr (js '' '')) (JNum 1) JUndefined"
proof (intro conjI impI iffI)
  assume "\<not> truthy taskData \<or> typeof taskData \<noteq> TObject
      \<or> (\<exists>t. get_prop taskData (js ''title'') = Inr t \<and> \<not> truthy t)"
  then show "fst (createTask s now src taskData) = Inl InvalidInputError"
    by (simp add: createTask_invalid)
next
  assume rejected: "fst (createTask s now src taskData) = Inl InvalidInputError"
  show "\<not> truthy taskData \<or> typeof taskData \<noteq> TObject
      \<or> (\<exists>t. get_prop taskData (js ''title'') = Inr t \<and> \<not> truthy t)"
  proof (rule ccontr)
    assume "\<not> ?thesis"
    then have obj: "truthy taskData" "typeof taskData = TObject"
      and title: "\<forall>t. get_prop taskData (js ''title'') = Inr t \<longrightarrow> truthy t"
      by blast+
    from obj obtain t where t: "get_prop taskData (js ''title'') = Inr t"
      using truthy_object_props by blast
    with title have "truthy t" by blast
    from createTask_valid_error [OF obj t this] rejected show False by blast
  qed
next
  assume "truthy taskData \<and> typeof taskData = TObject
       \<and> get_prop taskData (js ''title'') = Inr title \<and> truthy title
       \<and> getTasks s = Inr (JArr ts) \<and> \<not> set_rejects s"
  with createTask_valid [of taskData title s ts now src]
  show "\<exists>newTask.
          createTask s now src taskData = (Inr newTask, with_tasks s (ts @ [newTask]))
        \<and> get_prop newTask (js ''title'') = Inr title"
    by (auto simp: Let_def)
next
  show "truthy (JStr (js '' ''))" by simp
  show "\<not> isValidText (JStr (js '' '')) (JNum 1) JUndefined"
    by (rule blank_title_invalid_text)
qed

text \<open>
  An instance of C10: an empty title and a string in place of the object are rejected, a
  title of one space is stored.
\<close>

theorem createTask_rejects_exactly_falsy_titles_witness:
  "fst (createTask store_a 1700000120000 (RandomUUID (js ''b'')) (JObj [js ''title'' \<mapsto> JStr []]))
     = Inl InvalidInputError
   \<and> fst (createTask store_a 1700000120000 (RandomUUID (js ''b'')) (JStr (js ''Buy eggs'')))
     = Inl InvalidInputError
   \<and> (\<exists>newTask.
        createTask store_a 1700000120000 (RandomUUID (js ''b'')) (JObj [js ''title'' \<mapsto> JStr (js '' '')])
          = (Inr newTask, with_tasks store_a [task_a, newTask])
      \<and> get_prop newTask (js ''title'') = Inr (JStr (js '' '')))
   \<and> \<not> isValidText (JStr (js '' '')) (JNum 1) JUndefined"
proof -
  let ?blank = "JObj [js ''title'' \<mapsto> JStr (js '' '')]"
  let ?empty = "JObj [js ''title'' \<mapsto> JStr []]"
  have e: "\<not> truthy ?empty \<or> typeof ?empty \<noteq> TObject
      \<or> (\<exists>t. get_prop ?empty (js ''title'') = Inr t \<and> \<not> truthy t)"
    by simp
  have n: "\<not> truthy (JStr (js ''Buy eggs'')) \<or> typeof (JStr (js ''Buy eggs'')) \<noteq> TObject
      \<or> (\<exists>t. get_prop (JStr (js ''Buy eggs'')) (js ''title'') = Inr t \<and> \<not> truthy t)"
    by simp
  have b: "truthy ?blank \<and> typeof ?blank = TObject
       \<and> get_prop ?blank (js ''title'') = Inr (JStr (js '' '')) \<and> truthy (JStr (js '' ''))
       \<and> getTasks store_a = Inr (JArr [task_a]) \<and> \<not> set_rejects store_a"
    by (simp add: store_a_tasks store_a_writable)
  from createTask_rejects_exactly_falsy_titles [of store_a 1700000120000 "RandomUUID (js ''b'')" ?empty] e
  have "fst (createTask store_a 1700000120000 (RandomUUID (js ''b'')) ?empty) = Inl InvalidInputError"
    by blast
  moreover
  from createTask_rejects_exactly_falsy_titles [of store_a 1700000120000 "RandomUUID (js ''b'')" "JStr (js ''Buy eggs'')"] n
  have "fst (createTask store_a 1700000120000 (RandomUUID (js ''b'')) (JStr (js ''Buy eggs''))) = Inl InvalidInputError"
    by blast
  moreover
  from createTask_rejects_exactly_falsy_titles
         [of store_a 1700000120000 "RandomUUID (js ''b'')" ?blank "JStr (js '' '')" "[task_a]"] b
  have "(\<exists>newTask.
        createTask store_a 1700000120000 (RandomUUID (js ''b'')) ?blank
          = (Inr newTask, with_tasks store_a ([task_a] @ [newTask]))
      \<and> get_prop newTask (js ''title'') = Inr (JStr (js '' '')))
     \<and> \<not> isValidText (JStr (js '' '')) (JNum 1) JUndefined"
    by blast
  ultimately show ?thesis by simp
qed

section \<open>A missing target\<close>

text \<open>
  Claim C3. For a stored collection and a provided id that no stored task has,
  \<open>getTaskById\<close> returns \<open>null\<close>, \<open>updateTask\<close> (with an object as new data) returns
  \<open>null\<close> and \<open>deleteTask\<close> returns \<open>false\<close>: none of them throws. When some stored task
  has the id and the store accepts the write, \<open>deleteTask\<close> returns \<open>true\<close> and stores
  the collection without it.
\<close>

theorem not_found_is_not_an_error:
  assumes "getTasks s = Inr (JArr ts)" and "truthy tid"
  shows "((\<forall>t\<in>set ts. id_is tid t = Inr False) \<longrightarrow>
            getTaskById s tid = Inr JNull
          \<and> (typeof newData = TObject \<and> \<not> is_null newData \<longrightarrow>
               updateTask s now tid newData = (Inr JNull, s))
          \<and> deleteTask s tid = (Inr False, s))
       \<and> ((\<forall>t\<in>set ts. \<exists>b. id_is tid t = Inr b) \<and> (\<exists>t\<in>set ts. id_is tid t = Inr True)
            \<and> \<not> set_rejects s \<longrightarrow>
            deleteTask s tid = (Inr True, with_tasks s (filter (\<lambda>t. id_is tid t = Inr False) ts)))"
proof (intro conjI impI)
  assume nf: "\<forall>t\<in>set ts. id_is tid t = Inr False"
  show "getTaskById s tid = Inr JNull"
    using assms nf by (simp add: getTaskById_def find_js_none)
  from nf have all: "\<forall>t\<in>set ts. \<exists>b. id_is tid t = Inr b" by blast
  from nf have same: "filter (\<lambda>t. id_is tid t = Inr False) ts = ts" by simp
  show "deleteTask s tid = (Inr False, s)"
    using assms by (simp add: deleteTask_def filter_js_id_is_not [OF all] same)
next
  assume nf: "\<forall>t\<in>set ts. id_is tid t = Inr False"
    and "typeof newData = TObject \<and> \<not> is_null newData"
  then show "updateTask s now tid newData = (Inr JNull, s)"
    using assms by (simp add: updateTask_def findIndex_none)
next
  assume a: "(\<forall>t\<in>set ts. \<exists>b. id_is tid t = Inr b) \<and> (\<exists>t\<in>set ts. id_is tid t = Inr True)
            \<and> \<not> set_rejects s"
  then obtain t where "t \<in> set ts" "id_is tid t = Inr True" by blast
  then have "\<exists>t\<in>set ts. \<not> id_is tid t = Inr False" by (intro bexI [of _ t]) simp_all
  then have "length (filter (\<lambda>t. id_is tid t = Inr False) ts) \<noteq> length ts"
    by (rule filter_shorter)
  then show "deleteTask s tid = (Inr True, with_tasks s (filter (\<lambda>t. id_is tid t = Inr False) ts))"
    using assms a by (simp add: deleteTask_def filter_js_id_is_not saveTasks_ok)
qed

text \<open>
  An instance of C3: the id \<open>b\<close> is missing from the store, the id \<open>a\<close> is the one task
  in it.
\<close>

theorem not_found_is_not_an_error_witness:
  "getTasks store_a = Inr (JArr [task_a])
   \<and> id_is (JStr (js ''b'')) task_a = Inr False
   \<and> id_is (JStr (js ''a'')) task_a = Inr True
   \<and> getTaskById store_a (JStr (js ''b'')) = Inr JNull
   \<and> updateTask store_a 1700000120000 (JStr (js ''b'')) (JObj Map.empty) = (Inr JNull, store_a)
   \<and> deleteTask store_a (JStr (js ''b'')) = (Inr False, store_a)
   \<and> deleteTask store_a (JStr (js ''a'')) = (Inr True, with_tasks store_a [])"
proof -
  have a: "truthy (JStr (js ''a''))" and b: "truthy (JStr (js ''b''))"
    by simp_all
  have missing: "\<forall>t\<in>set [task_a]. id_is (JStr (js ''b'')) t = Inr False"
    by (simp add: task_a_id_b)
  have present: "(\<forall>t\<in>set [task_a]. \<exists>c. id_is (JStr (js ''a'')) t = Inr c)
      \<and> (\<exists>t\<in>set [task_a]. id_is (JStr (js ''a'')) t = Inr True) \<and> \<not> set_rejects store_a"
    by (auto simp: task_a_id_a store_a_def)
  have rest: "filter (\<lambda>t. id_is (JStr (js ''a'')) t = Inr False) [task_a] = []"
    by (simp add: task_a_id_a)
  from not_found_is_not_an_error [OF store_a_tasks b, of "JObj Map.empty" 1700000120000] missing empty_object
  have "getTaskById store_a (JStr (js ''b'')) = Inr JNull
      \<and> updateTask store_a 1700000120000 (JStr (js ''b'')) (JObj Map.empty) = (Inr JNull, store_a)
      \<and> deleteTask store_a (JStr (js ''b'')) = (Inr False, store_a)"
    by blast
  moreover from not_found_is_not_an_error [OF store_a_tasks a] present
  have "deleteTask store_a (JStr (js ''a'')) = (Inr True, with_tasks store_a [])"
    unfolding rest by blast
  ultimately show ?thesis
    using store_a_tasks task_a_id_a task_a_id_b by blast
qed

text \<open>
  Claim C8. When the target is missing, \<open>updateTask\<close> returns \<open>null\<close>, \<open>deleteTask\<close>
  returns \<open>false\<close> and \<open>deleteSubtask\<close> returns \<open>false\<close> (the parent task is missing, or
  the parent is there and the subtask is missing), and the storage state afterwards is the
  state before. This holds for every store, also one whose \<open>set\<close> call rejects, where a
  save would have thrown \<open>StorageError\<close>: no save is issued on these paths.
\<close>

theorem not_found_writes_nothing:
  assumes "getTasks s = Inr (JArr ts)" and "truthy tid"
  shows "((\<forall>t\<in>set ts. id_is tid t = Inr False) \<longrightarrow>
            (typeof newData = TObject \<and> \<not> is_null newData \<longrightarrow>
               updateTask s now tid newData = (Inr JNull, s))
          \<and> deleteTask s tid = (Inr False, s)
          \<and> (truthy sid \<longrightarrow> deleteSubtask s now tid sid = (Inr False, s)))
       \<and> (truthy sid \<and> findIndex (id_is tid) ts = Inr (Some i)
            \<and> get_prop (ts ! i) (js ''subtasks'') = Inr (JArr subs)
            \<and> (\<forall>x\<in>set subs. id_is sid x = Inr False) \<longrightarrow>
            deleteSubtask s now tid sid = (Inr False, s))"
proof (intro conjI impI)
  assume nf: "\<forall>t\<in>set ts. id_is tid t = Inr False"
  from nf have all: "\<forall>t\<in>set ts. \<exists>b. id_is tid t = Inr b" by blast
  from nf have same: "filter (\<lambda>t. id_is tid t = Inr False) ts = ts" by simp
  show "deleteTask s tid = (Inr False, s)"
    using assms by (simp add: deleteTask_def filter_js_id_is_not [OF all] same)
  { assume "truthy sid"
    then show "deleteSubtask s now tid sid = (Inr False, s)"
      using assms nf by (simp add: deleteSubtask_def findIndex_none) }
  { assume "typeof newData = TObject \<and> \<not> is_null newData"
    then show "updateTask s now tid newData = (Inr JNull, s)"
      using assms nf by (simp add: updateTask_def findIndex_none) }
next
  assume a: "truthy sid \<and> findIndex (id_is tid) ts = Inr (Some i)
            \<and> get_prop (ts ! i) (js ''subtasks'') = Inr (JArr subs)
            \<and> (\<forall>x\<in>set subs. id_is sid x = Inr False)"
  then have "id_is tid (ts ! i) = Inr True"
    using findIndex_Some by blast
  with assms obtain m where m: "ts ! i = JObj m"
    using id_is_True_obj by blast
  from a have all: "\<forall>x\<in>set subs. \<exists>b. id_is sid x = Inr b" by blast
  from a have same: "filter (\<lambda>x. id_is sid x = Inr False) subs = subs" by simp
  from a m have sub: "get_prop (JObj m) (js ''subtasks'') = Inr (JArr subs)" by simp
  show "deleteSubtask s now tid sid = (Inr False, s)"
    using assms a
    by (simp add: deleteSubtask_def m sub filter_js_id_is_not [OF all] same del: get_prop.simps)
qed

text \<open>
  An instance of C8, on a store that rejects every write.
\<close>

theorem not_found_writes_nothing_witness:
  "set_rejects store_a_full
   \<and> getTasks store_a_full = Inr (JArr [task_a])
   \<and> updateTask store_a_full 1700000120000 (JStr (js ''b'')) (JObj Map.empty) = (Inr JNull, store_a_full)
   \<and> deleteTask store_a_full (JStr (js ''b'')) = (Inr False, store_a_full)
   \<and> deleteSubtask store_a_full 1700000120000 (JStr (js ''b'')) (JStr (js ''x'')) = (Inr False, store_a_full)
   \<and> deleteSubtask store_a_full 1700000120000 (JStr (js ''a'')) (JStr (js ''y'')) = (Inr False, store_a_full)"
proof -
  have a: "truthy (JStr (js ''a''))" and b: "truthy (JStr (js ''b''))"
    and x: "truthy (JStr (js ''x''))" and y: "truthy (JStr (js ''y''))"
    by simp_all
  have full: "set_rejects store_a_full"
    by (simp add: store_a_full_def)
  have missing: "\<forall>t\<in>set [task_a]. id_is (JStr (js ''b'')) t = Inr False"
    by (simp add: task_a_id_b)
  have sub_missing: "findIndex (id_is (JStr (js ''a''))) [task_a] = Inr (Some 0)
      \<and> get_prop ([task_a] ! 0) (js ''subtasks'') = Inr (JArr [sub_x])
      \<and> (\<forall>x\<in>set [sub_x]. id_is (JStr (js ''y'')) x = Inr False)"
    by (simp add: task_a_id_a task_a_subtasks sub_x_id_y)
  from not_found_writes_nothing [OF store_a_full_tasks b, of "JObj Map.empty" 1700000120000 "JStr (js ''x'')"]
    missing empty_object x
  have "updateTask store_a_full 1700000120000 (JStr (js ''b'')) (JObj Map.empty) = (Inr JNull, store_a_full)
      \<and> deleteTask store_a_full (JStr (js ''b'')) = (Inr False, store_a_full)
      \<and> deleteSubtask store_a_full 1700000120000 (JStr (js ''b'')) (JStr (js ''x'')) = (Inr False, store_a_full)"
    by blast
  moreover from not_found_writes_nothing [OF store_a_full_tasks a, of _ 1700000120000 "JStr (js ''y'')" 0 "[sub_x]"]
    sub_missing y
  have "deleteSubtask store_a_full 1700000120000 (JStr (js ''a'')) (JStr (js ''y'')) = (Inr False, store_a_full)"
    by blast
  ultimately show ?thesis
    using full store_a_full_tasks by blast
qed

section \<open>markSubtaskStatus\<close>

lemma markSubtaskStatus_found:
  assumes "getTasks s = Inr (JArr ts)" and "truthy taskId" and "truthy subtaskId"
    and "findIndex (id_is taskId) ts = Inr (Some i)"
    and "get_prop (ts ! i) (js ''subtasks'') = Inr (JArr subs)"
    and "findIndex (id_is subtaskId) subs = Inr (Some j)"
    and "\<not> set_rejects s"
  shows "\<exists>m n. ts ! i = JObj m \<and> subs ! j = JObj n \<and>
     markSubtaskStatus s now1 now2 taskId subtaskId (JBool b) =
       (Inr (JObj (n(js ''isComplete'' \<mapsto> JBool b, js ''updatedAt'' \<mapsto> JNum now1))),
        with_tasks s (ts[i := JObj (m(js ''subtasks'' \<mapsto>
             JArr (subs[j := JObj (n(js ''isComplete'' \<mapsto> JBool b, js ''updatedAt'' \<mapsto> JNum now1))]),
             js ''updatedAt'' \<mapsto> JNum now2))]))"
proof -
  from assms have "id_is taskId (ts ! i) = Inr True"
    using findIndex_Some by blast
  with assms obtain m where m: "ts ! i = JObj m"
    using id_is_True_obj by blast
  from assms have "id_is subtaskId (subs ! j) = Inr True"
    using findIndex_Some by blast
  with assms obtain n where n: "subs ! j = JObj n"
    using id_is_True_obj by blast
  from assms(5) m have sub: "get_prop (JObj m) (js ''subtasks'') = Inr (JArr subs)" by simp
  have "markSubtaskStatus s now1 now2 taskId subtaskId (JBool b) =
       (Inr (JObj (n(js ''isComplete'' \<mapsto> JBool b, js ''updatedAt'' \<mapsto> JNum now1))),
        with_tasks s (ts[i := JObj (m(js ''subtasks'' \<mapsto>
             JArr (subs[j := JObj (n(js ''isComplete'' \<mapsto> JBool b, js ''updatedAt'' \<mapsto> JNum now1))]),
             js ''updatedAt'' \<mapsto> JNum now2))]))"
    using assms
    by (simp add: markSubtaskStatus_def m n sub saveTasks_ok del: get_prop.simps)
  with m n show ?thesis by blast
qed

lemma markSubtaskStatus_store_a:
  "\<exists>m n. task_a = JObj m \<and> sub_x = JObj n \<and>
     markSubtaskStatus store_a now1 now2 (JStr (js ''a'')) (JStr (js ''x'')) (JBool b) =
       (Inr (JObj (n(js ''isComplete'' \<mapsto> JBool b, js ''updatedAt'' \<mapsto> JNum now1))),
        with_tasks store_a [JObj (m(js ''subtasks'' \<mapsto>
             JArr [JObj (n(js ''isComplete'' \<mapsto> JBool b, js ''updatedAt'' \<mapsto> JNum now1))],
             js ''updatedAt'' \<mapsto> JNum now2))])"
proof -
  have a: "truthy (JStr (js ''a''))" and x: "truthy (JStr (js ''x''))"
    by simp_all
  have i: "findIndex (id_is (JStr (js ''a''))) [task_a] = Inr (Some 0)"
    by (simp add: task_a_id_a)
  have subs: "get_prop ([task_a] ! 0) (js ''subtasks'') = Inr (JArr [sub_x])"
    by (simp add: task_a_subtasks)
  have j: "findIndex (id_is (JStr (js ''x''))) [sub_x] = Inr (Some 0)"
    by (simp add: sub_x_id_x)
  from markSubtaskStatus_found [OF store_a_tasks a x i subs j store_a_writable, of now1 now2 b]
  show ?thesis by simp
qed

text \<open>
  Claim C4, amended. For a stored task that has a subtask with the given id, and a store
  that accepts the write, \<open>markSubtaskStatus\<close> sets the subtask's \<open>isComplete\<close>, sets the
  subtask's \<open>updatedAt\<close> to the first reading of the clock and the parent task's
  \<open>updatedAt\<close> to the second, leaves their other properties alone, stores the collection
  and returns the updated subtask. The code does not compare the readings with the values
  they replace: the new \<open>updatedAt\<close> is at least the prior one when the clock reading is.
\<close>

theorem markSubtaskStatus_sets_clock_readings:
  assumes "getTasks s = Inr (JArr ts)" and "truthy taskId" and "truthy subtaskId"
    and "findIndex (id_is taskId) ts = Inr (Some i)"
    and "get_prop (ts ! i) (js ''subtasks'') = Inr (JArr subs)"
    and "findIndex (id_is subtaskId) subs = Inr (Some j)"
    and "\<not> set_rejects s"
  shows "\<exists>sub' task'.
      markSubtaskStatus s now1 now2 taskId subtaskId (JBool b) =
        (Inr sub', with_tasks s (ts[i := task']))
    \<and> get_prop sub' (js ''isComplete'') = Inr (JBool b)
    \<and> get_prop sub' (js ''updatedAt'') = Inr (JNum now1)
    \<and> get_prop task' (js ''updatedAt'') = Inr (JNum now2)
    \<and> get_prop task' (js ''subtasks'') = Inr (JArr (subs[j := sub']))
    \<and> (\<forall>k. k \<notin> {js ''isComplete'', js ''updatedAt''} \<longrightarrow>
          get_prop sub' k = get_prop (subs ! j) k)
    \<and> (\<forall>k. k \<notin> {js ''subtasks'', js ''updatedAt''} \<longrightarrow>
          get_prop task' k = get_prop (ts ! i) k)
    \<and> (\<forall>p q. get_prop (subs ! j) (js ''updatedAt'') = Inr (JNum p) \<and> p \<le> now1
            \<and> get_prop (ts ! i) (js ''updatedAt'') = Inr (JNum q) \<and> q \<le> now2 \<longrightarrow>
          (\<exists>p' q'. get_prop sub' (js ''updatedAt'') = Inr (JNum p') \<and> p \<le> p'
                 \<and> get_prop task' (js ''updatedAt'') = Inr (JNum q') \<and> q \<le> q'))"
proof -
  from markSubtaskStatus_found [OF assms, of now1 now2 b]
  obtain m n where m: "ts ! i = JObj m" and n: "subs ! j = JObj n"
    and run: "markSubtaskStatus s now1 now2 taskId subtaskId (JBool b) =
       (Inr (JObj (n(js ''isComplete'' \<mapsto> JBool b, js ''updatedAt'' \<mapsto> JNum now1))),
        with_tasks s (ts[i := JObj (m(js ''subtasks'' \<mapsto>
             JArr (subs[j := JObj (n(js ''isComplete'' \<mapsto> JBool b, js ''updatedAt'' \<mapsto> JNum now1))]),
             js ''updatedAt'' \<mapsto> JNum now2))]))"
    by blast
  show ?thesis
    apply (rule exI [of _ "JObj (n(js ''isComplete'' \<mapsto> JBool b, js ''updatedAt'' \<mapsto> JNum now1))"])
    apply (rule exI [of _ "JObj (m(js ''subtasks'' \<mapsto>
             JArr (subs[j := JObj (n(js ''isComplete'' \<mapsto> JBool b, js ''updatedAt'' \<mapsto> JNum now1))]),
             js ''updatedAt'' \<mapsto> JNum now2))"])
    apply (simp add: run m n)
    done
qed

text \<open>
  An instance of the amended C4, with clock readings after the stored timestamps.
\<close>

theorem markSubtaskStatus_sets_clock_readings_witness:
  "getTasks store_a = Inr (JArr [task_a])
   \<and> findIndex (id_is (JStr (js ''a''))) [task_a] = Inr (Some 0)
   \<and> get_prop task_a (js ''subtasks'') = Inr (JArr [sub_x])
   \<and> findIndex (id_is (JStr (js ''x''))) [sub_x] = Inr (Some 0)
   \<and> (\<exists>sub' task'.
        markSubtaskStatus store_a 1700000120000 1700000120001 (JStr (js ''a'')) (JStr (js ''x''))
            (JBool True) =
          (Inr sub', with_tasks store_a [task'])
      \<and> get_prop sub' (js ''isComplete'') = Inr (JBool True)
      \<and> get_prop sub' (js ''updatedAt'') = Inr (JNum 1700000120000)
      \<and> get_prop task' (js ''updatedAt'') = Inr (JNum 1700000120001)
      \<and> get_prop task' (js ''subtasks'') = Inr (JArr [sub'])
      \<and> get_prop sub' (js ''title'') = Inr (JStr (js ''2%''))
      \<and> get_prop task' (js ''title'') = Inr (JStr (js ''Buy milk''))
      \<and> (\<exists>p' q'. get_prop sub' (js ''updatedAt'') = Inr (JNum p') \<and> 1700000060000 \<le> p'
                 \<and> get_prop task' (js ''updatedAt'') = Inr (JNum q') \<and> 1700000060000 \<le> q'))"
proof -
  have a: "truthy (JStr (js ''a''))" and x: "truthy (JStr (js ''x''))"
    by simp_all
  have i: "findIndex (id_is (JStr (js ''a''))) [task_a] = Inr (Some 0)"
    by (simp add: task_a_id_a)
  have subs: "get_prop ([task_a] ! 0) (js ''subtasks'') = Inr (JArr [sub_x])"
    by (simp add: task_a_subtasks)
  have j: "findIndex (id_is (JStr (js ''x''))) [sub_x] = Inr (Some 0)"
    by (simp add: sub_x_id_x)
  have prior: "get_prop ([sub_x] ! 0) (js ''updatedAt'') = Inr (JNum 1700000060000)
      \<and> (1700000060000::int) \<le> 1700000120000
      \<and> get_prop ([task_a] ! 0) (js ''updatedAt'') = Inr (JNum 1700000060000)
      \<and> (1700000060000::int) \<le> 1700000120001"
    by (simp add: sub_x_def task_a_def)
  from markSubtaskStatus_sets_clock_readings
         [OF store_a_tasks a x i subs j store_a_writable, of 1700000120000 1700000120001 True]
  obtain sub' task' where r:
    "markSubtaskStatus store_a 1700000120000 1700000120001 (JStr (js ''a'')) (JStr (js ''x''))
        (JBool True) =
        (Inr sub', with_tasks store_a ([task_a][0 := task']))"
    "get_prop sub' (js ''isComplete'') = Inr (JBool True)"
    "get_prop sub' (js ''updatedAt'') = Inr (JNum 1700000120000)"
    "get_prop task' (js ''updatedAt'') = Inr (JNum 1700000120001)"
    "get_prop task' (js ''subtasks'') = Inr (JArr ([sub_x][0 := sub']))"
    "\<forall>k. k \<notin> {js ''isComplete'', js ''updatedAt''} \<longrightarrow>
          get_prop sub' k = get_prop ([sub_x] ! 0) k"
    "\<forall>k. k \<notin> {js ''subtasks'', js ''updatedAt''} \<longrightarrow>
          get_prop task' k = get_prop ([task_a] ! 0) k"
    "\<forall>p q. get_prop ([sub_x] ! 0) (js ''updatedAt'') = Inr (JNum p) \<and> p \<le> 1700000120000
            \<and> get_prop ([task_a] ! 0) (js ''updatedAt'') = Inr (JNum q) \<and> q \<le> 1700000120001 \<longrightarrow>
          (\<exists>p' q'. get_prop sub' (js ''updatedAt'') = Inr (JNum p') \<and> p \<le> p'
                 \<and> get_prop task' (js ''updatedAt'') = Inr (JNum q') \<and> q \<le> q')"
    by blast
  from r(6) have "get_prop sub' (js ''title'') = Inr (JStr (js ''2%''))"
    by (simp add: sub_x_def)
  moreover from r(7) have "get_prop task' (js ''title'') = Inr (JStr (js ''Buy milk''))"
    by (simp add: task_a_def)
  moreover from r(8) prior
  have "\<exists>p' q'. get_prop sub' (js ''updatedAt'') = Inr (JNum p') \<and> 1700000060000 \<le> p'
                 \<and> get_prop task' (js ''updatedAt'') = Inr (JNum q') \<and> 1700000060000 \<le> q'"
    by blast
  ultimately show ?thesis
    using r(1-5) store_a_tasks i j task_a_subtasks by auto
qed

text \<open>
  C4 as stated fails when the wall clock was set back: task and subtask were last updated
  at 1700000060000, the clock reads 1700000000000 (a minute earlier), and both get that
  reading as \<open>updatedAt\<close>.
\<close>

theorem markSubtaskStatus_clock_set_back:
  "get_prop sub_x (js ''updatedAt'') = Inr (JNum 1700000060000)
   \<and> get_prop task_a (js ''updatedAt'') = Inr (JNum 1700000060000)
   \<and> result_prop (fst (markSubtaskStatus store_a 1700000000000 1700000000000 (JStr (js ''a'')) (JStr (js ''x'')) (JBool True)))
        (js ''updatedAt'') = Inr (JNum 1700000000000)
   \<and> result_prop (getTaskById (snd (markSubtaskStatus store_a 1700000000000 1700000000000 (JStr (js ''a'')) (JStr (js ''x''))
                                      (JBool True))) (JStr (js ''a'')))
        (js ''updatedAt'') = Inr (JNum 1700000000000)
   \<and> \<not> (1700000060000::int) \<le> 1700000000000"
proof -
  from markSubtaskStatus_store_a [of 1700000000000 1700000000000 True]
  obtain m n where m: "task_a = JObj m" and n: "sub_x = JObj n"
    and run: "markSubtaskStatus store_a 1700000000000 1700000000000 (JStr (js ''a'')) (JStr (js ''x'')) (JBool True) =
       (Inr (JObj (n(js ''isComplete'' \<mapsto> JBool True, js ''updatedAt'' \<mapsto> JNum 1700000000000))),
        with_tasks store_a [JObj (m(js ''subtasks'' \<mapsto>
             JArr [JObj (n(js ''isComplete'' \<mapsto> JBool True, js ''updatedAt'' \<mapsto> JNum 1700000000000))],
             js ''updatedAt'' \<mapsto> JNum 1700000000000))])"
    by blast
  have "id_is (JStr (js ''a'')) (JObj m) = Inr True"
    using task_a_id_a m by simp
  then have same_id: "id_is (JStr (js ''a'')) (JObj (m(js ''subtasks'' \<mapsto>
             JArr [JObj (n(js ''isComplete'' \<mapsto> JBool True, js ''updatedAt'' \<mapsto> JNum 1700000000000))],
             js ''updatedAt'' \<mapsto> JNum 1700000000000))) = Inr True"
    by (simp add: id_is_def)
  have "result_prop (fst (markSubtaskStatus store_a 1700000000000 1700000000000 (JStr (js ''a'')) (JStr (js ''x'')) (JBool True)))
        (js ''updatedAt'') = Inr (JNum 1700000000000)"
    by (simp add: run result_prop_def)
  moreover have "result_prop (getTaskById (snd (markSubtaskStatus store_a 1700000000000 1700000000000 (JStr (js ''a''))
                    (JStr (js ''x'')) (JBool True))) (JStr (js ''a''))) (js ''updatedAt'') = Inr (JNum 1700000000000)"
    by (simp add: run result_prop_def getTaskById_def getTasks_with_tasks store_a_readable same_id)
  ultimately show ?thesis
    by (simp add: sub_x_def task_a_def)
qed

section \<open>extractVideoId\<close>

lemma rx_match_Repeat:
  "r' \<in> set (rx_match (Repeat n p) r) \<Longrightarrow>
   length (take (length r - length r') r) = n \<and> list_all p (take (length r - length r') r)"
  by (auto split: if_splits)

lemma match_at_Repeat:
  assumes "match_at pre (Repeat n p) s = Some g"
  shows "length g = n \<and> list_all p g"
proof -
  let ?gs = "concat (map (\<lambda>r. map (\<lambda>r'. take (length r - length r') r) (rx_match (Repeat n p) r))
                       (rx_match pre s))"
  from assms obtain gs where "?gs = g # gs"
    by (auto simp: match_at_def split: list.splits simp del: rx_match.simps)
  then have "g \<in> set ?gs"
    by (simp only: list.set_intros)
  then obtain r r' where "r' \<in> set (rx_match (Repeat n p) r)"
    and "g = take (length r - length r') r"
    by (auto simp del: rx_match.simps)
  then show ?thesis using rx_match_Repeat by blast
qed

lemma rx_exec_Repeat:
  "rx_exec pre (Repeat n p) s = Some g \<Longrightarrow> length g = n \<and> list_all p g"
proof (induction s)
  case Nil
  then show ?case using match_at_Repeat by simp
next
  case (Cons c cs)
  show ?case
  proof (cases "match_at pre (Repeat n p) (c # cs)")
    case None
    with Cons show ?thesis by simp
  next
    case (Some h)
    with Cons.prems have "h = g" by simp
    with Some show ?thesis using match_at_Repeat by blast
  qed
qed

lemma extractVideoId_cases:
  "extractVideoId url = JNull
   \<or> (\<exists>g. extractVideoId url = JStr g \<and> length g = 11 \<and> list_all is_id_char g)"
proof (cases url)
  case (JStr u)
  show ?thesis
  proof (cases "rx_exec videoIdPrefix videoIdGroup u")
    case None
    with JStr show ?thesis by (simp add: extractVideoId_def)
  next
    case (Some g)
    then have "length g = 11 \<and> list_all is_id_char g"
      using rx_exec_Repeat [of videoIdPrefix 11 is_id_char u g] by (simp add: videoIdGroup_def)
    with JStr Some show ?thesis by (simp add: extractVideoId_def)
  qed
qed (simp_all add: extractVideoId_def)

lemmas class_defs =
  is_space_def is_dot_def is_digit_def is_id_char_def not_slash_newline_space_def
  not_space_def question_or_amp_def

lemma exec_short:
  "rx_exec videoIdPrefix videoIdGroup (js ''https://youtu.be/abc12345678'') = Some (js ''abc12345678'')"
  by (simp add: videoIdPrefix_def videoIdGroup_def match_at_def js_def class_defs)


lemma extract_short:
  "extractVideoId (JStr (js ''https://youtu.be/abc12345678'')) = JStr (js ''abc12345678'')"
  by (simp add: extractVideoId_def exec_short)


text \<open>
  Claim C9. For every argument, \<open>extractVideoId\<close> returns \<open>null\<close> or a string of
  exactly 11 code units, each of them in \<open>[a-zA-Z0-9_-]\<close>. So whenever it returns a video
  id, \<open>getEmbedUrl\<close> of that id is the embed URL and not \<open>null\<close>.
\<close>

theorem extractVideoId_eleven_id_chars:
  "(extractVideoId url = JNull
    \<or> (\<exists>g. extractVideoId url = JStr g \<and> length g = 11 \<and> list_all is_id_char g))
   \<and> (extractVideoId url \<noteq> JNull \<longrightarrow>
        (\<exists>g. extractVideoId url = JStr g
           \<and> getEmbedUrl (extractVideoId url) = JStr (js ''https://www.youtube.com/embed/'' @ g))
        \<and> getEmbedUrl (extractVideoId url) \<noteq> JNull)"
proof (cases "extractVideoId url = JNull")
  case True
  then show ?thesis by simp
next
  case False
  with extractVideoId_cases [of url] obtain g
    where g: "extractVideoId url = JStr g" "length g = 11" "list_all is_id_char g"
    by blast
  then have "getEmbedUrl (extractVideoId url) = JStr (js ''https://www.youtube.com/embed/'' @ g)"
    by (simp add: getEmbedUrl_def)
  with g show ?thesis by simp
qed

text \<open>
  An instance of C9: the short link.
\<close>

theorem extractVideoId_eleven_id_chars_witness:
  "extractVideoId (JStr (js ''https://youtu.be/abc12345678'')) \<noteq> JNull
   \<and> getEmbedUrl (extractVideoId (JStr (js ''https://youtu.be/abc12345678''))) \<noteq> JNull"
  using extractVideoId_eleven_id_chars [of "JStr (js ''https://youtu.be/abc12345678'')"]
  by (simp add: extract_short)

section \<open>Adding a video\<close>












section \<open>isValidDate\<close>

lemma feb28_shape:
  "trim (js ''2023-02-28'') \<noteq> [] \<and> rx_test_whole dateFormatRegex (js ''2023-02-28'')"
  by (simp add: trim_def is_space_def rx_test_whole_def dateFormatRegex_def is_digit_def js_def)

lemma feb28_fields:
  "parseInt (substring (js ''2023-02-28'') 0 4) = 2023
   \<and> parseInt (substring (js ''2023-02-28'') 5 7) = 2
   \<and> parseInt (substring (js ''2023-02-28'') 8 10) = 28"
  by (simp add: parseInt_def substring_def js_def)

lemma feb28_midnight: "days_from_civil 2023 2 28 * msPerDay = 1677542400000"
  by code_simp

lemma feb28_time: "Date_parse (js ''2023-02-28'') = Some 1677542400000"
  by (simp add: Date_parse_def feb28_fields feb28_midnight)

lemma feb28_local_west: "local_civil (- 300) 1677542400000 = (2023, 2, 27)"
  by code_simp

lemma feb28_local_utc: "local_civil 0 1677542400000 = (2023, 2, 28)"
  by code_simp

lemma feb30_shape:
  "trim (js ''2023-02-30'') \<noteq> [] \<and> rx_test_whole dateFormatRegex (js ''2023-02-30'')"
  by (simp add: trim_def is_space_def rx_test_whole_def dateFormatRegex_def is_digit_def js_def)

lemma feb30_fields:
  "parseInt (substring (js ''2023-02-30'') 0 4) = 2023
   \<and> parseInt (substring (js ''2023-02-30'') 5 7) = 2
   \<and> parseInt (substring (js ''2023-02-30'') 8 10) = 30"
  by (simp add: parseInt_def substring_def js_def)

lemma feb30_midnight: "days_from_civil 2023 2 30 * msPerDay = 1677715200000"
  by code_simp

lemma feb30_time: "Date_parse (js ''2023-02-30'') = Some 1677715200000"
  by (simp add: Date_parse_def feb30_fields feb30_midnight)

lemma feb30_local_west: "local_civil (- 300) 1677715200000 = (2023, 3, 1)"
  by code_simp

lemma feb30_local_utc: "local_civil 0 1677715200000 = (2023, 3, 2)"
  by code_simp

text \<open>
  Claim C7 says that \<open>isValidDate("2023-02-28")\<close> is true and
  \<open>isValidDate("2023-02-30")\<close> is false. The code parses the string as midnight UTC and
  compares it with the local year, month and day: five hours west of UTC the local day of
  2023-02-28 is the 27th, and the valid date is rejected. At UTC both results are as the
  claim says.
\<close>

theorem isValidDate_west_of_UTC:
  "isValidDate (- 300) (JStr (js ''2023-02-28'')) = False
   \<and> isValidDate 0 (JStr (js ''2023-02-28'')) = True
   \<and> isValidDate (- 300) (JStr (js ''2023-02-30'')) = False
   \<and> isValidDate 0 (JStr (js ''2023-02-30'')) = False"
  by (simp add: isValidDate_def feb28_shape feb28_fields feb28_time feb28_local_west feb28_local_utc
        feb30_shape feb30_fields feb30_time feb30_local_west feb30_local_utc
        getFullYear_def getMonth_def getDate_def)

text \<open>
  The same for every zone: 2023-02-28 is accepted east of UTC and at UTC, and rejected
  west of it.
\<close>

lemma west_day:
  "- 1440 < tz \<Longrightarrow> tz < 0 \<Longrightarrow> (1677542400000 + tz * 60000) div msPerDay = (19415::int)"
  unfolding msPerDay_def by linarith

lemma east_day:
  "0 \<le> tz \<Longrightarrow> tz < 1440 \<Longrightarrow> (1677542400000 + tz * 60000) div msPerDay = (19416::int)"
  unfolding msPerDay_def by linarith

lemma day_19415: "civil_from_days 19415 = (2023, 2, 27)"
  by code_simp

lemma day_19416: "civil_from_days 19416 = (2023, 2, 28)"
  by code_simp

lemma isValidDate_feb28_by_zone:
  assumes "- 1440 < tz" and "tz < 1440"
  shows "isValidDate tz (JStr (js ''2023-02-28'')) = (0 \<le> tz)"
proof (cases "0 \<le> tz")
  case True
  with assms have "local_civil tz 1677542400000 = (2023, 2, 28)"
    by (simp add: local_civil_def east_day day_19416)
  with True show ?thesis
    by (simp add: isValidDate_def feb28_shape feb28_fields feb28_time
          getFullYear_def getMonth_def getDate_def)
next
  case False
  with assms have "local_civil tz 1677542400000 = (2023, 2, 27)"
    by (simp add: local_civil_def west_day day_19415)
  with False show ?thesis
    by (simp add: isValidDate_def feb28_shape feb28_fields feb28_time
          getFullYear_def getMonth_def getDate_def)
qed


end
